theory Spec2Isabelle
  imports Complex_Main "HOL-Library.Log_Nat"
begin

section \<open>Data model\<close>

text \<open>
  The documents of the Room, Match and User schemas. Identities (Mongo object ids) are
  natural numbers and instants are milliseconds since the epoch as \<open>Date.now()\<close> returns
  them. The numbers the code computes as whole values (counts, scores, seconds, ratings)
  are \<open>int\<close>, and so is the time limit, taken to be a whole number of minutes. The
  \<open>maxParticipants\<close> setting, which the schema declares as a \<open>Number\<close> between 2 and 10
  with no test for wholeness and which the socket handlers take from the client as it
  comes, is a \<open>rat\<close>.

  Two identities compare by \<open>a.toString() === b.toString()\<close>, which is their equality. That
  holds for a room as \<open>findOne\<close> loads it; where a handler has populated
  \<open>participants.user\<close> the comparison is made on user documents instead (see
  \<open>populated_lookup\<close> below).

  \<open>lastSubmission\<close> is a nested path of the participant, so it is always there: \<open>None\<close>
  stands for the one nothing was written to, with score 0 and no test results.
\<close>

type_synonym user_id = nat
type_synonym problem_id = nat
type_synonym time = int

datatype difficulty = Easy | Medium | Hard

datatype room_status = Waiting | Ready | InProgress | Completed | Cancelled

datatype submission_status = SubPending | SubRunning | SubCompleted | SubError

datatype chat_kind = Message | System | Announcement

datatype tier = Bronze | Silver | Gold | Platinum | Diamond | Master

datatype outcome = Win | Loss | Draw

record test_result =
  input :: string
  expectedOutput :: string
  actualOutput :: string
  passed :: bool
  executionTime :: int

record submission =
  code :: string
  sub_language :: string
  submittedAt :: time
  testResults :: "test_result list"
  score :: int
  sub_status :: submission_status

record participant =
  user :: user_id
  joinedAt :: time
  isReady :: bool
  currentCode :: string
  lastSubmission :: "submission option"

record room_settings =
  maxParticipants :: rat
  difficulty :: difficulty
  language :: string
  timeLimit :: int
  isRanked :: bool
  allowSpectators :: bool

record result =
  res_user :: user_id
  finalScore :: int
  timeSpent :: int
  submissionCount :: int
  correctTests :: int
  totalTests :: int

record battle_block =
  startedAt :: "time option"
  endedAt :: "time option"
  duration :: "int option"
  winner :: "user_id option"
  results :: "result list"

record chat_message =
  chat_user :: "user_id option"
  message :: string
  kind :: chat_kind
  timestamp :: time

record room =
  roomId :: string
  name :: string
  host :: user_id
  participants :: "participant list"
  settings :: room_settings
  problem :: "problem_id option"
  status :: room_status
  battle :: battle_block
  spectators :: "user_id list"
  chat :: "chat_message list"
  isPrivate :: bool
  password :: "string option"

record match_participant =
  mp_user :: user_id
  mp_finalScore :: int
  mp_timeSpent :: int
  mp_submissionCount :: int
  correctTestCases :: int
  totalTestCases :: int
  mp_rank :: int

record match_battle =
  mb_startedAt :: time
  mb_endedAt :: time
  mb_duration :: int
  mb_winner :: "user_id option"

text \<open>The match id is the text match, room id, \<open>Date.now()\<close> joined by underscores, kept as the pair.\<close>

record match =
  matchId :: "string \<times> time"
  m_problem :: problem_id
  m_participants :: "match_participant list"
  m_settings :: room_settings
  m_battle :: match_battle

record problems_solved =
  easy :: int
  medium :: int
  hard :: int

record user_doc =
  totalBattles :: int
  wins :: int
  losses :: int
  draws :: int
  rating :: int
  rank :: tier
  averageTime :: int
  problemsSolved :: problems_solved

text \<open>The three collections the handlers read and write.\<close>

record store =
  rooms :: "string \<rightharpoonup> room"
  matches :: "match list"
  users :: "user_id \<rightharpoonup> user_doc"

text \<open>
  What a handler answers its caller. The error constructors are the handlers' messages:
  \<open>TimeIsUp\<close> is 'Battle time is up' (the spec's BattleExpiredError), \<open>RoomIsFull\<close>
  'Room is full', \<open>SubmissionFailed\<close> the catch block of battle:submit, \<open>SaveFailed\<close> the
  catch block of a room handler whose \<open>room.save()\<close> was rejected by the schema's
  validators, \<open>HandlerFailed\<close> the same catch block reached by a TypeError.
\<close>

datatype error =
    RoomNotFound | NotAuthorized | NotInProgress | TimeIsUp | SubmissionFailed
  | RoomIsFull | IncorrectPassword | BattleInProgress | NotInRoom
  | OnlyHost | SettingsLocked | SaveFailed | HandlerFailed

datatype response = Done | Failed error

section \<open>Arithmetic of the source\<close>

text \<open>
  \<open>Math.round(a / b)\<close> for integers \<open>a\<close> and \<open>b > 0\<close>: JavaScript rounds halves towards
  plus infinity, which is \<open>floor (a / b + 1 / 2)\<close>.
\<close>

definition round_div :: "int \<Rightarrow> int \<Rightarrow> int" where
  "round_div a b = (2 * a + b) div (2 * b)"

text \<open>
  Double precision, for the one computation whose rounding shows: a number is a rational,
  and an operation returns the exact result rounded to the nearest double, ties to the
  even significand (53 bits; the values used are far from the ends of the exponent range).
  \<open>floor_log2 q\<close> is the exponent \<open>e\<close> with \<open>2^e \<le> q < 2^(e+1)\<close>, for \<open>q > 0\<close>.
\<close>

definition pow2 :: "int \<Rightarrow> rat" where
  "pow2 e = (if e \<ge> 0 then 2 ^ nat e else 1 / 2 ^ nat (- e))"

definition floor_log2 :: "rat \<Rightarrow> int" where
  "floor_log2 q =
     (if q \<ge> 1 then int (floorlog 2 (nat \<lfloor>q\<rfloor>)) - 1
      else (let j = int (floorlog 2 (nat \<lfloor>1 / q\<rfloor>)) - 1
            in if q * pow2 j = 1 then - j else - j - 1))"

definition round_half_even :: "rat \<Rightarrow> int" where
  "round_half_even x =
     (let f = \<lfloor>x\<rfloor>; d = x - of_int f
      in if d < 1 / 2 then f else if d > 1 / 2 then f + 1 else if even f then f else f + 1)"

definition to_double :: "rat \<Rightarrow> rat" where
  "to_double q =
     (if q = 0 then 0
      else (let a = \<bar>q\<bar>; u = pow2 (floor_log2 a - 52)
            in sgn q * of_int (round_half_even (a / u)) * u))"

text \<open>\<open>Math.round\<close> of a double: the nearest integer, halves towards plus infinity.\<close>

definition js_round :: "rat \<Rightarrow> int" where
  "js_round x = \<lfloor>x + 1 / 2\<rfloor>"

section \<open>Room methods (models/Room.js)\<close>

definition isFull :: "room \<Rightarrow> bool" where
  "isFull r = (of_nat (length (participants r)) \<ge> maxParticipants (settings r))"

definition isParticipant :: "room \<Rightarrow> user_id \<Rightarrow> bool" where
  "isParticipant r u = list_ex (\<lambda>p. user p = u) (participants r)"

definition isHost :: "room \<Rightarrow> user_id \<Rightarrow> bool" where
  "isHost r u = (host r = u)"

definition allParticipantsReady :: "room \<Rightarrow> bool" where
  "allParticipantsReady r = (length (participants r) \<ge> 2 \<and> list_all isReady (participants r))"

text \<open>The \<open>push\<close> of \<open>addParticipant\<close>, and the method on a room as \<open>findOne\<close> loads it.\<close>

definition push_participant :: "time \<Rightarrow> user_id \<Rightarrow> room \<Rightarrow> room" where
  "push_participant now u r =
     r\<lparr>participants := participants r @
        [\<lparr>user = u, joinedAt = now, isReady = False, currentCode = [],
          lastSubmission = None\<rparr>]\<rparr>"

definition addParticipant :: "time \<Rightarrow> user_id \<Rightarrow> room \<Rightarrow> bool \<times> room" where
  "addParticipant now u r =
     (if isFull r \<or> isParticipant r u then (False, r) else (True, push_participant now u r))"

text \<open>
  \<open>isParticipant\<close> on a room whose \<open>participants.user\<close> a handler has populated. Each
  \<open>p.user\<close> is then the user's document, or null when there is no such user, and
  \<open>p.user.toString()\<close> is the document's inspect text, never the text of an id: no
  participant matches, whoever is asked for. The method answers false (\<open>NotFound\<close>) after
  going through all participants, unless one of them has no user document, where
  \<open>null.toString()\<close> throws (\<open>Threw\<close>).
\<close>

datatype lookup = NotFound | Threw

definition populated_lookup :: "store \<Rightarrow> room \<Rightarrow> lookup" where
  "populated_lookup s r =
     (if list_all (\<lambda>p. users s (user p) \<noteq> None) (participants r) then NotFound else Threw)"

definition removeParticipant :: "user_id \<Rightarrow> room \<Rightarrow> room" where
  "removeParticipant u r = r\<lparr>participants := filter (\<lambda>p. user p \<noteq> u) (participants r)\<rparr>"

text \<open>\<open>find\<close> returns the first participant with the identity; the method mutates it in place.\<close>

fun update_first :: "user_id \<Rightarrow> (participant \<Rightarrow> participant) \<Rightarrow> participant list \<Rightarrow> participant list" where
  "update_first u f [] = []"
| "update_first u f (p # ps) = (if user p = u then f p # ps else p # update_first u f ps)"

definition setParticipantReady :: "user_id \<Rightarrow> bool \<Rightarrow> room \<Rightarrow> bool \<times> room" where
  "setParticipantReady u v r =
     (case find (\<lambda>p. user p = u) (participants r) of
        Some p \<Rightarrow> (True, r\<lparr>participants := update_first u (\<lambda>p. p\<lparr>isReady := v\<rparr>) (participants r)\<rparr>)
      | None \<Rightarrow> (False, r))"

definition startBattle :: "time \<Rightarrow> room \<Rightarrow> bool \<times> room" where
  "startBattle now r =
     (if \<not> allParticipantsReady r \<or> status r \<noteq> Ready then (False, r)
      else (True, r\<lparr>status := InProgress, battle := (battle r)\<lparr>startedAt := Some now\<rparr>\<rparr>))"

text \<open>
  \<open>results.reduce((prev, current) => prev.finalScore > current.finalScore ? prev : current)\<close>
  with no initial value: the fold starts at the first result.
\<close>

definition pick_winner :: "result \<Rightarrow> result \<Rightarrow> result" where
  "pick_winner prev current = (if finalScore prev > finalScore current then prev else current)"

definition reduce_winner :: "result list \<Rightarrow> user_id option" where
  "reduce_winner rs = (case rs of [] \<Rightarrow> None | r # rest \<Rightarrow> Some (res_user (foldl pick_winner r rest)))"

text \<open>
  The method \<open>endBattle\<close> of the room. The duration is
  \<open>Math.round((endedAt - startedAt) / 1000)\<close>; without a start instant it is NaN, here
  \<open>None\<close>. The winner is left as it was when there are no results.
\<close>

definition room_endBattle :: "time \<Rightarrow> result list \<Rightarrow> room \<Rightarrow> room" where
  "room_endBattle now rs r =
     r\<lparr>status := Completed,
       battle := (battle r)\<lparr>
         endedAt := Some now,
         duration := (case startedAt (battle r) of None \<Rightarrow> None
                      | Some st \<Rightarrow> Some (round_div (now - st) 1000)),
         results := rs,
         winner := (if rs = [] then winner (battle r) else reduce_winner rs)\<rparr>\<rparr>"

definition addChatMessage :: "time \<Rightarrow> user_id option \<Rightarrow> string \<Rightarrow> chat_kind \<Rightarrow> room \<Rightarrow> room" where
  "addChatMessage now u msg k r =
     (let c = chat r @ [\<lparr>chat_user = u, message = msg, kind = k, timestamp = now\<rparr>]
      in r\<lparr>chat := (if length c > 100 then drop (length c - 100) c else c)\<rparr>)"

text \<open>
  \<open>room.save()\<close> runs the schema's validators on the whole document and rejects it when
  one fails; nothing is written then. The document is written back under the room id it
  was found by. The model keeps the validators of \<open>settings\<close> (the
  values a handler's input can set); names and chat texts are taken to be within their
  length limits, and the difficulty is one of the enumeration by its type.
\<close>

definition languages :: "string list" where
  "languages = [''javascript'', ''python'', ''cpp'', ''java'', ''go'', ''rust'', ''any'']"

definition validSettings :: "room_settings \<Rightarrow> bool" where
  "validSettings st =
     (2 \<le> maxParticipants st \<and> maxParticipants st \<le> 10 \<and>
      5 \<le> timeLimit st \<and> timeLimit st \<le> 60 \<and> language st \<in> set languages)"

definition save_room :: "string \<Rightarrow> room \<Rightarrow> store \<Rightarrow> store option" where
  "save_room rid r s =
     (if validSettings (settings r) then Some (s\<lparr>rooms := (rooms s)(rid \<mapsto> r)\<rparr>) else None)"

section \<open>User methods (models/User.js)\<close>

definition rank_for :: "int \<Rightarrow> tier" where
  "rank_for r =
     (if r < 1300 then Bronze else if r < 1500 then Silver else if r < 1700 then Gold
      else if r < 1900 then Platinum else if r < 2100 then Diamond else Master)"

text \<open>The \<open>pre('save')\<close> hook, run by every \<open>user.save()\<close>.\<close>

definition user_save :: "user_doc \<Rightarrow> user_doc" where
  "user_save u = u\<lparr>rank := rank_for (rating u)\<rparr>"

definition solved :: "difficulty \<Rightarrow> problems_solved \<Rightarrow> problems_solved" where
  "solved d ps =
     (case d of Easy \<Rightarrow> ps\<lparr>easy := easy ps + 1\<rparr>
      | Medium \<Rightarrow> ps\<lparr>medium := medium ps + 1\<rparr>
      | Hard \<Rightarrow> ps\<lparr>hard := hard ps + 1\<rparr>)"

text \<open>
  \<open>updateStats(result, timeSpent, difficulty)\<close>. The number of battles of a stored user is
  never negative, so the average divides by a positive number.
\<close>

definition updateStats :: "outcome \<Rightarrow> int \<Rightarrow> difficulty \<Rightarrow> user_doc \<Rightarrow> user_doc" where
  "updateStats res t d u =
     (let u1 = u\<lparr>totalBattles := totalBattles u + 1\<rparr>;
          u2 = (case res of
                  Win \<Rightarrow> u1\<lparr>wins := wins u1 + 1, rating := rating u1 + 25,
                              problemsSolved := solved d (problemsSolved u1)\<rparr>
                | Loss \<Rightarrow> u1\<lparr>losses := losses u1 + 1, rating := max 800 (rating u1 - 20)\<rparr>
                | Draw \<Rightarrow> u1\<lparr>draws := draws u1 + 1, rating := rating u1 + 5\<rparr>);
          totalTime = averageTime u2 * (totalBattles u2 - 1) + t
      in u2\<lparr>averageTime := round_div totalTime (totalBattles u2)\<rparr>)"

section \<open>Match methods (models/Match.js)\<close>

text \<open>
  The comparator of \<open>calculateRankings\<close>: negative when \<open>a\<close> goes before \<open>b\<close>.
\<close>

definition compareRank :: "match_participant \<Rightarrow> match_participant \<Rightarrow> int" where
  "compareRank a b =
     (if mp_finalScore b \<noteq> mp_finalScore a then mp_finalScore b - mp_finalScore a
      else if mp_timeSpent a \<noteq> mp_timeSpent b then mp_timeSpent a - mp_timeSpent b
      else mp_submissionCount a - mp_submissionCount b)"

text \<open>\<open>Array.prototype.sort\<close> with a comparator is a stable sort.\<close>

fun insort_cmp :: "('a \<Rightarrow> 'a \<Rightarrow> int) \<Rightarrow> 'a \<Rightarrow> 'a list \<Rightarrow> 'a list" where
  "insort_cmp c x [] = [x]"
| "insort_cmp c x (y # ys) = (if c x y \<le> 0 then x # y # ys else y # insort_cmp c x ys)"

definition sort_cmp :: "('a \<Rightarrow> 'a \<Rightarrow> int) \<Rightarrow> 'a list \<Rightarrow> 'a list" where
  "sort_cmp c xs = foldr (insort_cmp c) xs []"

text \<open>\<open>findIndex\<close>: the first index whose element satisfies the test, or \<open>-1\<close>.\<close>

fun findIndex :: "('a \<Rightarrow> bool) \<Rightarrow> 'a list \<Rightarrow> int" where
  "findIndex P [] = - 1"
| "findIndex P (x # xs) =
     (if P x then 0 else (let i = findIndex P xs in if i < 0 then - 1 else i + 1))"

text \<open>
  \<open>calculateRankings\<close> sorts a copy of the array and writes \<open>rank = index + 1\<close> into the
  participant objects, which the match's own array shares: the array keeps its order and
  each entry gets the rank of its place in the sorted copy. The entries are told apart by
  their position in the array.
\<close>

definition calculateRankings :: "match \<Rightarrow> match" where
  "calculateRankings m =
     (let ps = m_participants m;
          sorted = sort_cmp (\<lambda>a b. compareRank (snd a) (snd b)) (zip [0..<length ps] ps)
      in m\<lparr>m_participants :=
             map (\<lambda>(i, p). p\<lparr>mp_rank := findIndex (\<lambda>e. fst e = i) sorted + 1\<rparr>)
               (zip [0..<length ps] ps),
           m_battle := (m_battle m)\<lparr>mb_winner :=
             (case sorted of [] \<Rightarrow> mb_winner (m_battle m) | e # _ \<Rightarrow> Some (mp_user (snd e)))\<rparr>\<rparr>)"

section \<open>Battle handlers (socket/battleHandlers.js)\<close>

text \<open>
  \<open>timeElapsed = (Date.now() - startedAt) / 1000 / 60\<close> minutes, compared with the time
  limit in minutes: in milliseconds, \<open>now - startedAt > timeLimit * 60000\<close>. Without a
  start instant the elapsed time is NaN and every comparison with it is false.
\<close>

definition timeIsUp :: "time \<Rightarrow> room \<Rightarrow> bool" where
  "timeIsUp now r =
     (case startedAt (battle r) of None \<Rightarrow> False
      | Some st \<Rightarrow> now - st > timeLimit (settings r) * 60000)"

definition atLeastOneMinute :: "time \<Rightarrow> room \<Rightarrow> bool" where
  "atLeastOneMinute now r =
     (case startedAt (battle r) of None \<Rightarrow> False | Some st \<Rightarrow> now - st \<ge> 60000)"

definition passedTests :: "test_result list \<Rightarrow> int" where
  "passedTests trs = int (length (filter passed trs))"

text \<open>
  \<open>Math.round((passedTests / totalTests) * 100)\<close> for \<open>totalTests > 0\<close>, in double
  precision: the quotient is rounded to a double, then the product, then \<open>Math.round\<close>
  is taken. 23 passed tests of 40 score 57, where the exact value 57.5 would round to 58.
\<close>

definition calcScore :: "test_result list \<Rightarrow> int" where
  "calcScore trs =
     js_round (to_double (to_double (of_int (passedTests trs) / of_int (int (length trs))) * 100))"

text \<open>
  The handler of \<open>battle:submit\<close>. \<open>now\<close> is the clock at the time check, \<open>later\<close> the clock
  once the scoring oracle has answered; \<open>oracle\<close> is its answer, \<open>None\<close> when it throws. The
  third component of the result is the instant for which \<open>setTimeout\<close> schedules
  \<open>endBattle\<close>, if it does. Whatever is thrown is caught and answered with 'Code submission
  failed': a room without a problem (\<open>room.problem.testCases\<close>), an oracle failure, a
  score that is NaN (no test results; the save rejects it), a rejected save. The handler
  is taken as one step: no other handler runs between its reading and its writing of
  the room.
\<close>

definition battle_submit ::
  "time \<Rightarrow> time \<Rightarrow> string \<Rightarrow> user_id \<Rightarrow> string \<Rightarrow> string \<Rightarrow> test_result list option \<Rightarrow> store
     \<Rightarrow> response \<times> store \<times> time option" where
  "battle_submit now later rid uid src lang oracle s =
     (case rooms s rid of
        None \<Rightarrow> (Failed RoomNotFound, s, None)
      | Some r \<Rightarrow>
          if \<not> isParticipant r uid then (Failed NotAuthorized, s, None)
          else if status r \<noteq> InProgress then (Failed NotInProgress, s, None)
          else if timeIsUp now r then (Failed TimeIsUp, s, None)
          else if problem r = None then (Failed SubmissionFailed, s, None)
          else (case oracle of
             None \<Rightarrow> (Failed SubmissionFailed, s, None)
           | Some trs \<Rightarrow>
               if trs = [] then (Failed SubmissionFailed, s, None)
               else
                 (let sc = calcScore trs;
                      sub = \<lparr>code = src, sub_language = lang, submittedAt = later,
                             testResults = trs, score = sc, sub_status = SubCompleted\<rparr>;
                      r' = r\<lparr>participants := update_first uid
                             (\<lambda>p. p\<lparr>lastSubmission := Some sub, currentCode := src\<rparr>)
                             (participants r)\<rparr>
                  in (case save_room rid r' s of
                        None \<Rightarrow> (Failed SubmissionFailed, s, None)
                      | Some s' \<Rightarrow>
                          (Done, s',
                           if sc = 100 \<and> atLeastOneMinute later r then Some (later + 10000)
                           else None)))))"

text \<open>
  The per-participant result of \<open>endBattle\<close>. The clock is read once for the whole
  invocation (the source reads it again for each participant, within the same
  synchronous step). \<open>p.lastSubmission\<close> is a nested path and always truthy, so every
  test \<open>submission ? ... : ...\<close> takes its first branch: the submission count is 1 for
  every participant, and one who never submitted has the defaults, score 0 and no test
  results.
\<close>

definition final_result :: "time \<Rightarrow> room \<Rightarrow> participant \<Rightarrow> result" where
  "final_result now r p =
     \<lparr>res_user = user p,
      finalScore = (case lastSubmission p of Some sub \<Rightarrow> score sub | None \<Rightarrow> 0),
      timeSpent = (case startedAt (battle r) of Some st \<Rightarrow> round_div (now - st) 1000 | None \<Rightarrow> 0),
      submissionCount = 1,
      correctTests = (case lastSubmission p of Some sub \<Rightarrow> passedTests (testResults sub) | None \<Rightarrow> 0),
      totalTests = (case lastSubmission p of Some sub \<Rightarrow> int (length (testResults sub)) | None \<Rightarrow> 0)\<rparr>"

text \<open>The participants of the match record: the rank is \<open>findIndex(same user) + 1\<close>.\<close>

definition match_participants :: "result list \<Rightarrow> match_participant list" where
  "match_participants rs =
     map (\<lambda>r. \<lparr>mp_user = res_user r, mp_finalScore = finalScore r, mp_timeSpent = timeSpent r,
               mp_submissionCount = submissionCount r, correctTestCases = correctTests r,
               totalTestCases = totalTests r,
               mp_rank = findIndex (\<lambda>res. res_user res = res_user r) rs + 1\<rparr>) rs"

text \<open>
  \<open>match.save()\<close>: the match id has a unique index, so a second match with the same id is
  rejected.
\<close>

definition save_match :: "match \<Rightarrow> store \<Rightarrow> store option" where
  "save_match m s =
     (if matchId m \<in> set (map matchId (matches s)) then None
      else Some (s\<lparr>matches := matches s @ [m]\<rparr>))"

text \<open>
  The loop over the participants that updates the statistics. The flag is false when the
  loop was left by an exception (a user that \<open>findById\<close> does not find: \<open>user._id\<close> is
  evaluated before the test \<open>user && result\<close>); the users saved before stay saved.
\<close>

fun update_statistics :: "room \<Rightarrow> result list \<Rightarrow> participant list \<Rightarrow> (user_id \<rightharpoonup> user_doc)
     \<Rightarrow> bool \<times> (user_id \<rightharpoonup> user_doc)" where
  "update_statistics r rs [] us = (True, us)"
| "update_statistics r rs (p # ps) us =
     (case us (user p) of
        None \<Rightarrow> (False, us)
      | Some u \<Rightarrow>
          (case find (\<lambda>res. res_user res = user p) rs of
             None \<Rightarrow> update_statistics r rs ps us
           | Some res \<Rightarrow>
               update_statistics r rs ps
                 (us(user p \<mapsto> user_save
                    (updateStats (if winner (battle r) = Some (user p) then Win else Loss)
                       (timeSpent res) (difficulty (settings r)) u)))))"

text \<open>The payload of \<open>battle:ended\<close>: the results, each with \<open>rank = index + 1\<close>.\<close>

record ended_event =
  ev_results :: "(result \<times> int) list"
  ev_winner :: "user_id option"
  ev_duration :: "int option"

definition ended_payload :: "room \<Rightarrow> result list \<Rightarrow> ended_event" where
  "ended_payload r rs =
     \<lparr>ev_results = map (\<lambda>(i, res). (res, int i + 1)) (zip [0..<length rs] rs),
      ev_winner = winner (battle r), ev_duration = duration (battle r)\<rparr>"

text \<open>
  The helper \<open>endBattle(roomId, io)\<close>, the only place that completes a room. It
  populates \<open>participants.user\<close> and reads the identities as \<open>p.user._id\<close>, so its
  comparisons are between ids. Every exception is caught and logged, so the function
  returns the store as far as it was written, and the broadcast if it was reached:
  \<^item> a participant whose user document is missing makes \<open>p.user._id\<close> throw before anything
    is written;
  \<^item> a room without a start instant gets a NaN duration, which \<open>room.save()\<close> rejects;
  \<^item> a room without a problem makes \<open>room.problem._id\<close> throw after the room was saved;
  \<^item> \<open>room.calculateRankings\<close> is undefined (the method is the match's), so the guarded
    call does nothing.
\<close>

definition endBattle :: "time \<Rightarrow> string \<Rightarrow> store \<Rightarrow> store \<times> ended_event option" where
  "endBattle now rid s =
     (case rooms s rid of
        None \<Rightarrow> (s, None)
      | Some r \<Rightarrow>
          if status r \<noteq> InProgress then (s, None)
          else if \<not> list_all (\<lambda>p. users s (user p) \<noteq> None) (participants r) then (s, None)
          else
            (let rs = map (final_result now r) (participants r);
                 r' = room_endBattle now rs r
             in (case (startedAt (battle r), endedAt (battle r'), duration (battle r')) of
                   (Some st, Some en, Some du) \<Rightarrow>
                     (case save_room rid r' s of
                        None \<Rightarrow> (s, None)
                      | Some s1 \<Rightarrow>
                          (case problem r' of
                             None \<Rightarrow> (s1, None)
                           | Some pid \<Rightarrow>
                               (case save_match
                                       \<lparr>matchId = (rid, now), m_problem = pid,
                                        m_participants = match_participants rs,
                                        m_settings = settings r',
                                        m_battle = \<lparr>mb_startedAt = st, mb_endedAt = en,
                                          mb_duration = du, mb_winner = winner (battle r')\<rparr>\<rparr> s1 of
                                  None \<Rightarrow> (s1, None)
                                | Some s2 \<Rightarrow>
                                    (case update_statistics r' rs (participants r') (users s2) of
                                       (ok, us) \<Rightarrow>
                                         (s2\<lparr>users := us\<rparr>,
                                          if ok then Some (ended_payload r' rs) else None)))))
                 | _ \<Rightarrow> (s, None))))"

definition force_end :: "time \<Rightarrow> string \<Rightarrow> user_id \<Rightarrow> store \<Rightarrow> response \<times> store" where
  "force_end now rid uid s =
     (case rooms s rid of
        None \<Rightarrow> (Failed RoomNotFound, s)
      | Some r \<Rightarrow> if \<not> isHost r uid then (Failed OnlyHost, s) else (Done, fst (endBattle now rid s)))"

section \<open>Grace timers\<close>

text \<open>
  The timers that \<open>battle:submit\<close> arms, each the instant at which it fires and the room
  it ends, in the order they were armed (all run for ten seconds, so this is the order
  in which they fire). Letting the clock advance to \<open>t\<close> fires the timers that are due,
  each at its own instant; the source arms no other timer that ends a battle, so nothing
  else happens to a room while time passes.
\<close>

type_synonym system = "store \<times> (time \<times> string) list"

fun advance :: "time \<Rightarrow> store \<Rightarrow> (time \<times> string) list \<Rightarrow> system" where
  "advance t s [] = (s, [])"
| "advance t s ((f, rid) # ts) =
     (if f \<le> t then advance t (fst (endBattle f rid s)) ts else (s, (f, rid) # ts))"

definition submit_system ::
  "time \<Rightarrow> time \<Rightarrow> string \<Rightarrow> user_id \<Rightarrow> string \<Rightarrow> string \<Rightarrow> test_result list option \<Rightarrow> system
     \<Rightarrow> system" where
  "submit_system now later rid uid src lang oracle sys =
     (case battle_submit now later rid uid src lang oracle (fst sys) of
        (resp, s', tm) \<Rightarrow>
          (s', snd sys @ (case tm of None \<Rightarrow> [] | Some f \<Rightarrow> [(f, rid)])))"

section \<open>Room handlers (socket/roomHandlers.js, routes/rooms.js)\<close>

text \<open>The settings a client sends: every field may be missing.\<close>

record settings_input =
  in_maxParticipants :: "rat option"
  in_difficulty :: "difficulty option"
  in_language :: "string option"
  in_timeLimit :: "int option"
  in_isRanked :: "bool option"
  in_allowSpectators :: "bool option"

text \<open>\<open>x || d\<close>: the default replaces a missing value and a falsy one (0, the empty string).\<close>

definition or_int :: "int option \<Rightarrow> int \<Rightarrow> int" where
  "or_int x d = (case x of None \<Rightarrow> d | Some v \<Rightarrow> if v = 0 then d else v)"

definition or_rat :: "rat option \<Rightarrow> rat \<Rightarrow> rat" where
  "or_rat x d = (case x of None \<Rightarrow> d | Some v \<Rightarrow> if v = 0 then d else v)"

definition or_string :: "string option \<Rightarrow> string \<Rightarrow> string" where
  "or_string x d = (case x of None \<Rightarrow> d | Some v \<Rightarrow> if v = [] then d else v)"

definition new_room :: "string \<Rightarrow> string \<Rightarrow> user_id \<Rightarrow> settings_input \<Rightarrow> bool \<Rightarrow> string option \<Rightarrow> room" where
  "new_room rid nm uid inp priv pw =
     \<lparr>roomId = rid, name = nm, host = uid, participants = [],
      settings = \<lparr>maxParticipants = or_rat (in_maxParticipants inp) 2,
                  difficulty = (case in_difficulty inp of None \<Rightarrow> Medium | Some d \<Rightarrow> d),
                  language = or_string (in_language inp) ''any'',
                  timeLimit = or_int (in_timeLimit inp) 15,
                  isRanked = (in_isRanked inp \<noteq> Some False),
                  allowSpectators = (in_allowSpectators inp \<noteq> Some False)\<rparr>,
      problem = None, status = Waiting,
      battle = \<lparr>startedAt = None, endedAt = None, duration = None, winner = None, results = []\<rparr>,
      spectators = [], chat = [], isPrivate = priv, password = pw\<rparr>"

text \<open>
  \<open>room:create\<close> and \<open>POST /\<close>: \<open>rid\<close> is the generated room id; the room id has a unique
  index, so the save of a room whose id is taken is rejected. The new room is not
  populated, so \<open>addParticipant\<close> is the method above. (The route's validators let only
  whole \<open>maxParticipants\<close> through to this code; the socket handler has none.)
\<close>

definition room_create ::
  "time \<Rightarrow> string \<Rightarrow> string \<Rightarrow> user_id \<Rightarrow> settings_input \<Rightarrow> bool \<Rightarrow> string option \<Rightarrow> store
     \<Rightarrow> response \<times> store" where
  "room_create now rid nm uid inp priv pw s =
     (let r = snd (addParticipant now uid (new_room rid nm uid inp priv pw))
      in if rooms s rid \<noteq> None then (Failed SaveFailed, s)
         else (case save_room rid r s of None \<Rightarrow> (Failed SaveFailed, s) | Some s' \<Rightarrow> (Done, s')))"

text \<open>
  \<open>room:join\<close>; \<open>uname\<close> is the caller's user name, used in the system message. The
  handler populates \<open>participants.user\<close> before it asks \<open>room.isParticipant(userId)\<close>, so
  the answer is false also for a user who is in the room, and the message 'Already in
  this room' is never sent. \<open>room.addParticipant\<close> then finds the room not full (as the
  handler just did) and no participant matching, and pushes the entry: a user can be in
  the participants array more than once.
\<close>

definition room_join ::
  "time \<Rightarrow> string \<Rightarrow> user_id \<Rightarrow> string \<Rightarrow> string option \<Rightarrow> store \<Rightarrow> response \<times> store" where
  "room_join now rid uid uname pw s =
     (case rooms s rid of
        None \<Rightarrow> (Failed RoomNotFound, s)
      | Some r \<Rightarrow>
          if isFull r then (Failed RoomIsFull, s)
          else (case populated_lookup s r of
             Threw \<Rightarrow> (Failed HandlerFailed, s)
           | NotFound \<Rightarrow>
               if isPrivate r \<and> password r \<noteq> None \<and> password r \<noteq> Some [] \<and> password r \<noteq> pw
                 then (Failed IncorrectPassword, s)
               else if status r = InProgress then (Failed BattleInProgress, s)
               else (case save_room rid (push_participant now uid r) s of
                       None \<Rightarrow> (Failed SaveFailed, s)
                     | Some s1 \<Rightarrow>
                         (case save_room rid
                                 (addChatMessage now None (uname @ '' joined the room'') System
                                    (push_participant now uid r)) s1 of
                            None \<Rightarrow> (Failed SaveFailed, s1)
                          | Some s2 \<Rightarrow> (Done, s2)))))"

text \<open>
  \<open>POST /:roomId/join\<close>: it populates \<open>participants.user\<close> too and makes the same checks;
  no chat message.
\<close>

definition rest_join ::
  "time \<Rightarrow> string \<Rightarrow> user_id \<Rightarrow> string option \<Rightarrow> store \<Rightarrow> response \<times> store" where
  "rest_join now rid uid pw s =
     (case rooms s rid of
        None \<Rightarrow> (Failed RoomNotFound, s)
      | Some r \<Rightarrow>
          if isFull r then (Failed RoomIsFull, s)
          else (case populated_lookup s r of
             Threw \<Rightarrow> (Failed HandlerFailed, s)
           | NotFound \<Rightarrow>
               if isPrivate r \<and> password r \<noteq> None \<and> password r \<noteq> Some [] \<and> password r \<noteq> pw
                 then (Failed IncorrectPassword, s)
               else if status r = InProgress then (Failed BattleInProgress, s)
               else (case save_room rid (push_participant now uid r) s of
                       None \<Rightarrow> (Failed SaveFailed, s)
                     | Some s1 \<Rightarrow> (Done, s1))))"

text \<open>
  The host after a participant left: when the leaver was the host, the first of the
  remaining participants. \<open>room.participants[0].user\<close> is read only when the array is not
  empty.
\<close>

definition transfer_host :: "user_id \<Rightarrow> room \<Rightarrow> room" where
  "transfer_host uid r =
     (case participants r of
        [] \<Rightarrow> r
      | p # ps \<Rightarrow> if isHost r uid then r\<lparr>host := user p\<rparr> else r)"

definition delete_room :: "string \<Rightarrow> store \<Rightarrow> store" where
  "delete_room rid s = s\<lparr>rooms := (rooms s)(rid := None)\<rparr>"

text \<open>
  The handler of \<open>room:leave\<close>. It does not populate, so \<open>isParticipant\<close> and
  \<open>removeParticipant\<close> compare ids; the filter removes every entry of the leaver.
\<close>

definition room_leave ::
  "time \<Rightarrow> string \<Rightarrow> user_id \<Rightarrow> string \<Rightarrow> store \<Rightarrow> response \<times> store" where
  "room_leave now rid uid uname s =
     (case rooms s rid of
        None \<Rightarrow> (Failed RoomNotFound, s)
      | Some r \<Rightarrow>
          if \<not> isParticipant r uid then (Failed NotInRoom, s)
          else
            (let r1 = addChatMessage now None (uname @ '' left the room'') System
                        (removeParticipant uid r)
             in if participants r1 = [] then (Done, delete_room rid s)
                else (case save_room rid (transfer_host uid r1) s of
                        None \<Rightarrow> (Failed SaveFailed, s)
                      | Some s' \<Rightarrow> (Done, s'))))"

text \<open>The route \<open>POST /:roomId/leave\<close>.\<close>

definition rest_leave :: "string \<Rightarrow> user_id \<Rightarrow> store \<Rightarrow> response \<times> store" where
  "rest_leave rid uid s =
     (case rooms s rid of
        None \<Rightarrow> (Failed RoomNotFound, s)
      | Some r \<Rightarrow>
          if \<not> isParticipant r uid then (Failed NotInRoom, s)
          else
            (let r1 = removeParticipant uid r
             in if participants r1 = [] then (Done, delete_room rid s)
                else (case save_room rid (transfer_host uid r1) s of
                        None \<Rightarrow> (Failed SaveFailed, s)
                      | Some s' \<Rightarrow> (Done, s'))))"

text \<open>
  \<open>room:toggle-ready\<close>. The third component tells whether \<open>room:all-ready\<close> was broadcast
  and the five-second countdown armed. The handler populates \<open>participants.user\<close> and
  then returns unless \<open>room.isParticipant(userId)\<close>, which on the populated room is false
  for every caller: it answers 'Not in this room' (or, when a participant has no user
  document, fails in its catch block). What follows that return in the source, which is
  the toggle of the caller's flag through \<open>setParticipantReady\<close>, the chat message, the
  assignment \<open>room.status = 'ready'\<close> when \<open>allParticipantsReady()\<close> holds and the countdown
  that starts the battle, is never reached. No other place of the source sets a ready
  flag or the status \<open>ready\<close>.
\<close>

definition toggle_ready ::
  "time \<Rightarrow> string \<Rightarrow> user_id \<Rightarrow> string \<Rightarrow> store \<Rightarrow> response \<times> store \<times> bool" where
  "toggle_ready now rid uid uname s =
     (case rooms s rid of
        None \<Rightarrow> (Failed RoomNotFound, s, False)
      | Some r \<Rightarrow>
          (case populated_lookup s r of
             Threw \<Rightarrow> (Failed HandlerFailed, s, False)
           | NotFound \<Rightarrow> (Failed NotInRoom, s, False)))"

text \<open>
  \<open>room:update-settings\<close> and \<open>PUT /:roomId/settings\<close>: each of the allowed keys that is
  present replaces the setting (the route also allows \<open>allowSpectators\<close>: \<open>rest\<close>), and
  the save validates the result.
\<close>

definition apply_settings :: "bool \<Rightarrow> settings_input \<Rightarrow> room_settings \<Rightarrow> room_settings" where
  "apply_settings rest inp st =
     st\<lparr>difficulty := (case in_difficulty inp of None \<Rightarrow> difficulty st | Some d \<Rightarrow> d),
        language := (case in_language inp of None \<Rightarrow> language st | Some l \<Rightarrow> l),
        timeLimit := (case in_timeLimit inp of None \<Rightarrow> timeLimit st | Some t \<Rightarrow> t),
        maxParticipants := (case in_maxParticipants inp of None \<Rightarrow> maxParticipants st | Some m \<Rightarrow> m),
        allowSpectators := (case in_allowSpectators inp of None \<Rightarrow> allowSpectators st
                            | Some a \<Rightarrow> if rest then a else allowSpectators st)\<rparr>"

definition update_settings ::
  "bool \<Rightarrow> string \<Rightarrow> user_id \<Rightarrow> settings_input \<Rightarrow> store \<Rightarrow> response \<times> store" where
  "update_settings rest rid uid inp s =
     (case rooms s rid of
        None \<Rightarrow> (Failed RoomNotFound, s)
      | Some r \<Rightarrow>
          if \<not> isHost r uid then (Failed OnlyHost, s)
          else if status r \<noteq> Waiting then (Failed SettingsLocked, s)
          else (case save_room rid (r\<lparr>settings := apply_settings rest inp (settings r)\<rparr>) s of
                  None \<Rightarrow> (Failed SaveFailed, s)
                | Some s' \<Rightarrow> (Done, s')))"

section \<open>Specification-side notions\<close>

text \<open>
  The earliest-joined participant of a list: the smallest join instant, the first such
  participant when several joined at the same instant.
\<close>

fun earliest_joined :: "participant list \<Rightarrow> participant option" where
  "earliest_joined [] = None"
| "earliest_joined (p # ps) =
     (case earliest_joined ps of
        None \<Rightarrow> Some p
      | Some q \<Rightarrow> if joinedAt p \<le> joinedAt q then Some p else Some q)"

text \<open>
  The capacity invariant of one room, and of every room of the store; a whole number; the
  invariant together with a whole \<open>maxParticipants\<close>, for every room of the store.
\<close>

definition within_capacity :: "room \<Rightarrow> bool" where
  "within_capacity r = (of_nat (length (participants r)) \<le> maxParticipants (settings r))"

definition all_within_capacity :: "store \<Rightarrow> bool" where
  "all_within_capacity s = (\<forall>rid r. rooms s rid = Some r \<longrightarrow> within_capacity r)"

definition is_whole :: "rat \<Rightarrow> bool" where
  "is_whole m = (of_int \<lfloor>m\<rfloor> = m)"

definition capacity_invariant :: "store \<Rightarrow> bool" where
  "capacity_invariant s =
     (\<forall>rid r. rooms s rid = Some r \<longrightarrow>
        within_capacity r \<and> is_whole (maxParticipants (settings r)))"

text \<open>
  The operations on rooms that change the participants or the settings, as one step
  function.
\<close>

datatype room_op =
    Create time string string user_id settings_input bool "string option"
  | Join time string user_id string "string option"
  | RestJoin time string user_id "string option"
  | Leave time string user_id string
  | RestLeave string user_id
  | Update bool string user_id settings_input

fun apply_op :: "store \<Rightarrow> room_op \<Rightarrow> store" where
  "apply_op s (Create now rid nm uid inp priv pw) = snd (room_create now rid nm uid inp priv pw s)"
| "apply_op s (Join now rid uid uname pw) = snd (room_join now rid uid uname pw s)"
| "apply_op s (RestJoin now rid uid pw) = snd (rest_join now rid uid pw s)"
| "apply_op s (Leave now rid uid uname) = snd (room_leave now rid uid uname s)"
| "apply_op s (RestLeave rid uid) = snd (rest_leave rid uid s)"
| "apply_op s (Update rest rid uid inp) = snd (update_settings rest rid uid inp s)"

text \<open>
  A create or a settings update that asks for a \<open>maxParticipants\<close> that is not a whole
  number; a sequence of operations without one.
\<close>

fun sets_fraction :: "room_op \<Rightarrow> bool" where
  "sets_fraction (Create now rid nm uid inp priv pw) =
     (case in_maxParticipants inp of None \<Rightarrow> False | Some m \<Rightarrow> \<not> is_whole m)"
| "sets_fraction (Update rest rid uid inp) =
     (case in_maxParticipants inp of None \<Rightarrow> False | Some m \<Rightarrow> \<not> is_whole m)"
| "sets_fraction op = False"

definition no_fraction :: "room_op list \<Rightarrow> bool" where
  "no_fraction ops = list_all (\<lambda>op. \<not> sets_fraction op) ops"

text \<open>
  A settings update that asks for a \<open>maxParticipants\<close> below the number of participants
  the room has at that moment; a sequence of operations without such an update.
\<close>

fun lowers_below_count :: "store \<Rightarrow> room_op \<Rightarrow> bool" where
  "lowers_below_count s (Update rest rid uid inp) =
     (case rooms s rid of
        None \<Rightarrow> False
      | Some r \<Rightarrow>
          (case in_maxParticipants inp of
             None \<Rightarrow> False
           | Some m \<Rightarrow> m < of_nat (length (participants r))))"
| "lowers_below_count s op = False"

fun no_lowering :: "store \<Rightarrow> room_op list \<Rightarrow> bool" where
  "no_lowering s [] = True"
| "no_lowering s (op # ops) = (\<not> lowers_below_count s op \<and> no_lowering (apply_op s op) ops)"

text \<open>
  Settling one user once: the document \<open>endBattle\<close> saves for a participant entry of user
  \<open>u\<close>, given the recorded winner, the time spent and the difficulty.
\<close>

definition settle_once :: "user_id option \<Rightarrow> int \<Rightarrow> difficulty \<Rightarrow> user_id \<Rightarrow> user_doc \<Rightarrow> user_doc" where
  "settle_once w t dif u d = user_save (updateStats (if w = Some u then Win else Loss) t dif d)"

section \<open>Example documents\<close>

text \<open>Concrete rooms, users and oracle answers at which the theorems below are evaluated.\<close>

definition passing :: test_result where
  "passing = \<lparr>input = ''1'', expectedOutput = ''1'', actualOutput = ''1'', passed = True,
              executionTime = 10\<rparr>"

definition failing :: test_result where
  "failing = \<lparr>input = ''2'', expectedOutput = ''4'', actualOutput = ''5'', passed = False,
              executionTime = 10\<rparr>"

definition tests100 :: "test_result list" where
  "tests100 = [passing, passing, passing, passing, passing]"

definition tests80 :: "test_result list" where
  "tests80 = [passing, passing, passing, passing, failing]"

definition tests60 :: "test_result list" where
  "tests60 = [passing, passing, passing, failing, failing]"

definition tests0 :: "test_result list" where
  "tests0 = [failing, failing, failing, failing, failing]"

definition submitted :: "time \<Rightarrow> test_result list \<Rightarrow> submission option" where
  "submitted t trs =
     Some \<lparr>code = ''solve'', sub_language = ''python'', submittedAt = t, testResults = trs,
           score = calcScore trs, sub_status = SubCompleted\<rparr>"

definition player :: "user_id \<Rightarrow> time \<Rightarrow> bool \<Rightarrow> submission option \<Rightarrow> participant" where
  "player u t rdy sub =
     \<lparr>user = u, joinedAt = t, isReady = rdy, currentCode = [], lastSubmission = sub\<rparr>"

definition settings_of :: "rat \<Rightarrow> int \<Rightarrow> room_settings" where
  "settings_of cap limit =
     \<lparr>maxParticipants = cap, difficulty = Medium, language = ''any'', timeLimit = limit,
      isRanked = True, allowSpectators = True\<rparr>"

text \<open>A room hosted by user 1, with the given status, participants and start instant.\<close>

definition example_room :: "room_status \<Rightarrow> time option \<Rightarrow> participant list \<Rightarrow> room" where
  "example_room st started ps =
     \<lparr>roomId = ''R1'', name = ''duel'', host = 1, participants = ps,
      settings = settings_of 3 5, problem = Some 7, status = st,
      battle = \<lparr>startedAt = started, endedAt = None, duration = None, winner = None,
                results = []\<rparr>,
      spectators = [], chat = [], isPrivate = False, password = None\<rparr>"

definition no_changes :: settings_input where
  "no_changes =
     \<lparr>in_maxParticipants = None, in_difficulty = None, in_language = None, in_timeLimit = None,
      in_isRanked = None, in_allowSpectators = None\<rparr>"

definition contestant :: "user_id \<Rightarrow> int \<Rightarrow> int \<Rightarrow> int \<Rightarrow> match_participant" where
  "contestant u sc t n =
     \<lparr>mp_user = u, mp_finalScore = sc, mp_timeSpent = t, mp_submissionCount = n,
      correctTestCases = 0, totalTestCases = 0, mp_rank = 0\<rparr>"

definition example_match :: "match_participant list \<Rightarrow> match" where
  "example_match ps =
     \<lparr>matchId = (''R1'', 0), m_problem = 7, m_participants = ps, m_settings = settings_of 3 5,
      m_battle = \<lparr>mb_startedAt = 0, mb_endedAt = 200000, mb_duration = 200, mb_winner = None\<rparr>\<rparr>"

definition fresh_user :: user_doc where
  "fresh_user =
     \<lparr>totalBattles = 0, wins = 0, losses = 0, draws = 0, rating = 1200, rank = Bronze,
      averageTime = 0, problemsSolved = \<lparr>easy = 0, medium = 0, hard = 0\<rparr>\<rparr>"

definition example_store :: "room \<Rightarrow> store" where
  "example_store r =
     \<lparr>rooms = [''R1'' \<mapsto> r], matches = [],
      users = [1 \<mapsto> fresh_user, 2 \<mapsto> fresh_user, 3 \<mapsto> fresh_user]\<rparr>"

text \<open>The same users and no room yet.\<close>

definition lobby :: store where
  "lobby =
     \<lparr>rooms = Map.empty, matches = [],
      users = [1 \<mapsto> fresh_user, 2 \<mapsto> fresh_user, 3 \<mapsto> fresh_user]\<rparr>"

section \<open>Verification\<close>

lemmas example_defs = example_store_def example_room_def settings_of_def player_def submitted_def
  fresh_user_def no_changes_def contestant_def example_match_def lobby_def

lemmas settle_defs = endBattle_def room_endBattle_def final_result_def save_room_def save_match_def
  match_participants_def validSettings_def languages_def reduce_winner_def pick_winner_def
  round_div_def ended_payload_def updateStats_def user_save_def rank_for_def solved_def

text \<open>The example test results, scored as the handler scores them.\<close>

lemma calcScore_examples:
  "calcScore tests100 = 100" "calcScore tests80 = 80" "calcScore tests60 = 60"
  "calcScore tests0 = 0"
  by code_simp+

lemma calcScore_23_of_40:
  "calcScore (replicate 23 passing @ replicate 17 failing) = 57"
  by code_simp

lemma tests_counts:
  "passedTests tests100 = 5" "passedTests tests80 = 4" "passedTests tests60 = 3"
  "passedTests tests0 = 0"
  "length tests100 = 5" "length tests80 = 5" "length tests60 = 5" "length tests0 = 5"
  "tests100 \<noteq> []" "tests80 \<noteq> []" "tests60 \<noteq> []" "tests0 \<noteq> []"
  by (simp_all add: tests100_def tests80_def tests60_def tests0_def passedTests_def
      passing_def failing_def)

lemmas tests_facts = calcScore_examples tests_counts

subsection \<open>Chat log\<close>

text \<open>
  C10. After any call of \<open>addChatMessage\<close> the chat log holds at most 100 messages: it is
  the old log with the new message appended, cut down to its last 100 entries in their
  order.
\<close>

theorem addChatMessage_keeps_last_100:
  "chat (addChatMessage now u msg k r) =
     (let c = chat r @ [\<lparr>chat_user = u, message = msg, kind = k, timestamp = now\<rparr>]
      in drop (length c - 100) c) \<and>
   length (chat (addChatMessage now u msg k r)) = min 100 (length (chat r) + 1)"
  by (simp add: addChatMessage_def Let_def)

theorem addChatMessage_keeps_last_100_witness:
  "length (chat (addChatMessage 5 None ''hi'' Message
      ((example_room Waiting None [])\<lparr>chat := replicate 100
         \<lparr>chat_user = None, message = ''old'', kind = System, timestamp = 1\<rparr>\<rparr>))) = 100"
  using addChatMessage_keeps_last_100 [of 5 None "''hi''" Message
      "(example_room Waiting None [])\<lparr>chat := replicate 100
         \<lparr>chat_user = None, message = ''old'', kind = System, timestamp = 1\<rparr>\<rparr>"]
  by simp

subsection \<open>Leaving a room\<close>

lemma earliest_joined_sorted:
  "sorted (map joinedAt ps) \<Longrightarrow> ps \<noteq> [] \<Longrightarrow> earliest_joined ps = Some (hd ps)"
proof (induction ps)
  case Nil
  then show ?case by simp
next
  case (Cons p ps)
  show ?case
  proof (cases ps)
    case Nil
    then show ?thesis by simp
  next
    case (Cons q qs)
    with Cons.prems Cons.IH have "earliest_joined ps = Some q" "joinedAt p \<le> joinedAt q"
      by simp_all
    then show ?thesis by simp
  qed
qed

lemma push_participant_join_order:
  assumes "sorted (map joinedAt (participants r))"
    and "list_all (\<lambda>p. joinedAt p \<le> now) (participants r)"
  shows "sorted (map joinedAt (participants (push_participant now u r)))"
  using assms by (auto simp: push_participant_def sorted_append list_all_iff)

lemma addParticipant_join_order:
  assumes "sorted (map joinedAt (participants r))"
    and "list_all (\<lambda>p. joinedAt p \<le> now) (participants r)"
  shows "sorted (map joinedAt (participants (snd (addParticipant now u r))))"
  using assms by (simp add: addParticipant_def push_participant_join_order)

lemma removeParticipant_join_order:
  "sorted (map joinedAt (participants r)) \<Longrightarrow>
   sorted (map joinedAt (participants (removeParticipant u r)))"
  by (simp add: removeParticipant_def sorted_filter)

lemma at_most_one_entry:
  "distinct (map user ps) \<Longrightarrow> length (filter (\<lambda>p. user p = u) ps) \<le> 1"
proof (induction ps)
  case Nil
  then show ?case by simp
next
  case (Cons p ps)
  then show ?case
  proof (cases "user p = u")
    case True
    from Cons.prems have "user p \<notin> user ` set ps" by simp
    with True have "\<forall>q\<in>set ps. user q \<noteq> u" by blast
    then have "filter (\<lambda>p. user p = u) ps = []"
      by (simp add: filter_empty_conv)
    with True show ?thesis by simp
  next
    case False
    with Cons show ?thesis by simp
  qed
qed

lemma others_remain:
  assumes "distinct (map user ps)" and "length ps \<ge> 2"
  shows "filter (\<lambda>p. user p \<noteq> u) ps \<noteq> []"
proof -
  have "length (filter (\<lambda>p. user p = u) ps) + length (filter (\<lambda>p. user p \<noteq> u) ps) = length ps"
    using sum_length_filter_compl [of "\<lambda>p. user p = u" ps] by simp
  with at_most_one_entry [OF assms(1), of u] assms(2)
  have "length (filter (\<lambda>p. user p \<noteq> u) ps) \<ge> 1" by linarith
  then show ?thesis by auto
qed

lemma participants_addChatMessage [simp]:
  "participants (addChatMessage now u msg k r) = participants r"
  by (simp add: addChatMessage_def Let_def)

lemma settings_addChatMessage [simp]:
  "settings (addChatMessage now u msg k r) = settings r"
  by (simp add: addChatMessage_def Let_def)

lemma host_addChatMessage [simp]:
  "host (addChatMessage now u msg k r) = host r"
  by (simp add: addChatMessage_def Let_def)

lemma status_addChatMessage [simp]:
  "status (addChatMessage now u msg k r) = status r"
  by (simp add: addChatMessage_def Let_def)

text \<open>
  C9. A participant leaves a room whose participants are in join order (the order the
  pushes build, see \<open>push_participant_join_order\<close> and \<open>addParticipant_join_order\<close>), by the
  socket handler or the route. If nobody remains the room is deleted; otherwise the remaining participants stay
  in order and, when the leaver was the host, the host becomes the earliest-joined of
  them. A room of at least two distinct participants always has someone remaining.
\<close>

theorem leave_transfers_host_fifo:
  assumes "rooms s rid = Some r" and "isParticipant r uid" and "validSettings (settings r)"
    and "sorted (map joinedAt (participants r))"
  shows "let remaining = filter (\<lambda>p. user p \<noteq> uid) (participants r);
             after_leave = rooms (snd (room_leave now rid uid uname s)) rid;
             after_rest = rooms (snd (rest_leave rid uid s)) rid
         in (distinct (map user (participants r)) \<and> length (participants r) \<ge> 2
               \<longrightarrow> remaining \<noteq> []) \<and>
            (if remaining = [] then after_leave = None \<and> after_rest = None
             else map_option participants after_leave = Some remaining \<and>
                  map_option participants after_rest = Some remaining \<and>
                  (if isHost r uid
                   then map_option host after_leave = map_option user (earliest_joined remaining) \<and>
                        map_option host after_rest = map_option user (earliest_joined remaining)
                   else map_option host after_leave = Some (host r) \<and>
                        map_option host after_rest = Some (host r)))"
proof -
  let ?rem = "filter (\<lambda>p. user p \<noteq> uid) (participants r)"
  have sorted_rem: "sorted (map joinedAt ?rem)"
    using assms(4) by (simp add: sorted_filter)
  show ?thesis
  proof (cases "?rem = []")
    case True
    then show ?thesis
      using assms(1,2) others_remain [of "participants r" uid]
      by (auto simp: room_leave_def rest_leave_def removeParticipant_def delete_room_def Let_def)
  next
    case False
    then obtain p ps where rem: "?rem = p # ps" by (cases ?rem) auto
    with sorted_rem have "earliest_joined ?rem = Some p"
      using earliest_joined_sorted [of ?rem] by simp
    with rem assms(1-3) show ?thesis
      by (simp add: room_leave_def rest_leave_def removeParticipant_def Let_def
          transfer_host_def save_room_def isHost_def)
  qed
qed

theorem leave_transfers_host_fifo_witness:
  "let s = example_store (example_room Waiting None
             [player 1 0 False None, player 2 5 False None, player 3 9 False None])
   in map_option host (rooms (snd (room_leave 20 ''R1'' 1 ''alice'' s)) ''R1'') = Some 2 \<and>
      map_option host (rooms (snd (rest_leave ''R1'' 1 s)) ''R1'') = Some 2 \<and>
      rooms (snd (rest_leave ''R1'' 1
        (example_store (example_room Waiting None [player 1 0 False None])))) ''R1'' = None"
  using leave_transfers_host_fifo [of "example_store (example_room Waiting None
             [player 1 0 False None, player 2 5 False None, player 3 9 False None])" "''R1''"
          "example_room Waiting None
             [player 1 0 False None, player 2 5 False None, player 3 9 False None]" 1 20 "''alice''"]
    leave_transfers_host_fifo [of "example_store (example_room Waiting None [player 1 0 False None])"
          "''R1''" "example_room Waiting None [player 1 0 False None]" 1 20 "''alice''"]
  by (simp add: example_defs isParticipant_def isHost_def validSettings_def languages_def Let_def)

subsection \<open>Capacity\<close>

lemma is_whole_of_int [simp]: "is_whole (of_int k)"
  by (simp add: is_whole_def)

lemma is_whole_numeral [simp]: "is_whole (numeral n)"
  using is_whole_of_int [of "numeral n"] by simp

lemma is_wholeE: "is_whole m \<Longrightarrow> (\<And>k. m = of_int k \<Longrightarrow> P) \<Longrightarrow> P"
  unfolding is_whole_def by metis

text \<open>
  One more participant fits where the room is not full and the maximum is a whole number.
\<close>

lemma push_within_capacity:
  assumes "\<not> isFull r" and "is_whole (maxParticipants (settings r))"
  shows "within_capacity (push_participant now u r)"
proof -
  from assms(2) obtain k where k: "maxParticipants (settings r) = of_int k"
    by (rule is_wholeE)
  from assms(1) k have "(of_nat (length (participants r)) :: rat) < of_int k"
    by (simp add: isFull_def)
  then have "(of_int (int (length (participants r))) :: rat) < of_int k" by simp
  then have "int (length (participants r)) < k" by (simp only: of_int_less_iff)
  then have "int (length (participants r)) + 1 \<le> k" by simp
  then have "(of_int (int (length (participants r)) + 1) :: rat) \<le> of_int k"
    by (simp only: of_int_le_iff)
  with k show ?thesis
    by (simp add: within_capacity_def push_participant_def)
qed

lemma settings_push_participant [simp]:
  "settings (push_participant now u r) = settings r"
  by (simp add: push_participant_def)

lemma within_capacity_addParticipant:
  "within_capacity r \<Longrightarrow> is_whole (maxParticipants (settings r)) \<Longrightarrow>
   within_capacity (snd (addParticipant now u r))"
  by (simp add: addParticipant_def push_within_capacity)

lemma within_capacity_removeParticipant:
  assumes "within_capacity r"
  shows "within_capacity (removeParticipant u r)"
proof -
  have "within_capacity (removeParticipant u r) =
          (of_nat (length (filter (\<lambda>p. user p \<noteq> u) (participants r))) \<le> maxParticipants (settings r))"
    by (simp add: removeParticipant_def within_capacity_def)
  moreover have "(of_nat (length (filter (\<lambda>p. user p \<noteq> u) (participants r))) :: rat)
      \<le> of_nat (length (participants r))"
    by (simp only: of_nat_le_iff length_filter_le)
  ultimately show ?thesis
    using assms unfolding within_capacity_def by linarith
qed

lemma settings_removeParticipant [simp]:
  "settings (removeParticipant u r) = settings r"
  by (simp add: removeParticipant_def)

lemma within_capacity_addChatMessage [simp]:
  "within_capacity (addChatMessage now u msg k r) = within_capacity r"
  by (simp add: within_capacity_def)

lemma within_capacity_transfer_host [simp]:
  "within_capacity (transfer_host u r) = within_capacity r"
  by (simp add: within_capacity_def transfer_host_def split: list.splits)

lemma settings_transfer_host [simp]:
  "settings (transfer_host u r) = settings r"
  by (simp add: transfer_host_def split: list.splits)

lemma save_room_invariant:
  "capacity_invariant s \<Longrightarrow> within_capacity r \<Longrightarrow> is_whole (maxParticipants (settings r)) \<Longrightarrow>
   save_room rid r s = Some s' \<Longrightarrow> capacity_invariant s'"
  by (auto simp: capacity_invariant_def save_room_def split: if_splits)

lemma delete_room_invariant:
  "capacity_invariant s \<Longrightarrow> capacity_invariant (delete_room rid s)"
  by (auto simp: capacity_invariant_def delete_room_def split: if_splits)

lemma room_in_invariant:
  "capacity_invariant s \<Longrightarrow> rooms s rid = Some r \<Longrightarrow>
   within_capacity r \<and> is_whole (maxParticipants (settings r))"
  by (auto simp: capacity_invariant_def)

lemma room_in_capacity:
  "all_within_capacity s \<Longrightarrow> rooms s rid = Some r \<Longrightarrow> within_capacity r"
  by (auto simp: all_within_capacity_def)

lemma capacity_invariant_within:
  "capacity_invariant s \<Longrightarrow> all_within_capacity s"
  by (auto simp: capacity_invariant_def all_within_capacity_def)

lemma new_room_capacity:
  "validSettings (settings (snd (addParticipant now uid (new_room rid nm uid inp priv pw)))) \<Longrightarrow>
   within_capacity (snd (addParticipant now uid (new_room rid nm uid inp priv pw)))"
  by (auto simp: addParticipant_def push_participant_def new_room_def within_capacity_def
      validSettings_def)

lemma new_room_whole:
  "\<not> sets_fraction (Create now rid nm uid inp priv pw) \<Longrightarrow>
   is_whole (maxParticipants (settings (snd (addParticipant now uid (new_room rid nm uid inp priv pw)))))"
  by (auto simp: addParticipant_def new_room_def or_rat_def split: option.splits)

lemma room_create_invariant:
  assumes "capacity_invariant s" and "\<not> sets_fraction (Create now rid nm uid inp priv pw)"
  shows "capacity_invariant (snd (room_create now rid nm uid inp priv pw s))"
proof -
  let ?r = "snd (addParticipant now uid (new_room rid nm uid inp priv pw))"
  show ?thesis
  proof (cases "save_room rid ?r s")
    case None
    with assms show ?thesis by (simp add: room_create_def Let_def)
  next
    case (Some s')
    then have "validSettings (settings ?r)"
      by (simp add: save_room_def split: if_splits)
    then have "within_capacity ?r" by (rule new_room_capacity)
    moreover have "is_whole (maxParticipants (settings ?r))"
      using assms(2) by (rule new_room_whole)
    ultimately have "capacity_invariant s'"
      using assms(1) Some by (blast intro: save_room_invariant)
    with assms Some show ?thesis by (simp add: room_create_def Let_def)
  qed
qed

lemma room_join_invariant:
  assumes "capacity_invariant s"
  shows "capacity_invariant (snd (room_join now rid uid uname pw s))"
proof (cases "rooms s rid")
  case None
  with assms show ?thesis by (simp add: room_join_def)
next
  case (Some r)
  with assms have w: "is_whole (maxParticipants (settings r))"
    by (blast dest: room_in_invariant)
  show ?thesis
  proof (cases "isFull r")
    case True
    with assms Some show ?thesis by (simp add: room_join_def)
  next
    case False
    then have "within_capacity (push_participant now uid r)"
      using w by (rule push_within_capacity)
    with assms Some w show ?thesis
      by (auto simp: room_join_def split: option.splits lookup.splits
          dest!: save_room_invariant [rotated 3])
  qed
qed

lemma rest_join_invariant:
  assumes "capacity_invariant s"
  shows "capacity_invariant (snd (rest_join now rid uid pw s))"
proof (cases "rooms s rid")
  case None
  with assms show ?thesis by (simp add: rest_join_def)
next
  case (Some r)
  with assms have w: "is_whole (maxParticipants (settings r))"
    by (blast dest: room_in_invariant)
  show ?thesis
  proof (cases "isFull r")
    case True
    with assms Some show ?thesis by (simp add: rest_join_def)
  next
    case False
    then have "within_capacity (push_participant now uid r)"
      using w by (rule push_within_capacity)
    with assms Some w show ?thesis
      by (auto simp: rest_join_def split: option.splits lookup.splits
          dest!: save_room_invariant [rotated 3])
  qed
qed

lemma room_leave_invariant:
  assumes "capacity_invariant s"
  shows "capacity_invariant (snd (room_leave now rid uid uname s))"
proof (cases "rooms s rid")
  case None
  with assms show ?thesis by (simp add: room_leave_def)
next
  case (Some r)
  with assms have r: "within_capacity (removeParticipant uid r)"
    and w: "is_whole (maxParticipants (settings r))"
    by (blast intro: within_capacity_removeParticipant dest: room_in_invariant)+
  show ?thesis
    using assms Some r w
    by (auto simp: room_leave_def Let_def delete_room_invariant split: option.splits
        dest!: save_room_invariant [rotated 3])
qed

lemma rest_leave_invariant:
  assumes "capacity_invariant s"
  shows "capacity_invariant (snd (rest_leave rid uid s))"
proof (cases "rooms s rid")
  case None
  with assms show ?thesis by (simp add: rest_leave_def)
next
  case (Some r)
  with assms have r: "within_capacity (removeParticipant uid r)"
    and w: "is_whole (maxParticipants (settings r))"
    by (blast intro: within_capacity_removeParticipant dest: room_in_invariant)+
  show ?thesis
    using assms Some r w
    by (auto simp: rest_leave_def Let_def delete_room_invariant split: option.splits
        dest!: save_room_invariant [rotated 3])
qed

lemma update_settings_invariant:
  assumes "capacity_invariant s" and "\<not> lowers_below_count s (Update rest rid uid inp)"
    and "\<not> sets_fraction (Update rest rid uid inp)"
  shows "capacity_invariant (snd (update_settings rest rid uid inp s))"
proof (cases "rooms s rid")
  case None
  with assms show ?thesis by (simp add: update_settings_def)
next
  case (Some r)
  with assms(1) have "within_capacity r" "is_whole (maxParticipants (settings r))"
    by (blast dest: room_in_invariant)+
  with assms(2,3) Some
  have r: "within_capacity (r\<lparr>settings := apply_settings rest inp (settings r)\<rparr>)"
    "is_whole (maxParticipants (settings (r\<lparr>settings := apply_settings rest inp (settings r)\<rparr>)))"
    by (auto simp: within_capacity_def apply_settings_def split: option.splits)
  show ?thesis
    using assms(1) Some r
    by (auto simp: update_settings_def split: option.splits dest!: save_room_invariant [rotated 3])
qed

lemma apply_op_invariant:
  "capacity_invariant s \<Longrightarrow> \<not> sets_fraction op \<Longrightarrow> \<not> lowers_below_count s op \<Longrightarrow>
   capacity_invariant (apply_op s op)"
  by (cases op)
    (simp_all add: room_create_invariant room_join_invariant rest_join_invariant
      room_leave_invariant rest_leave_invariant update_settings_invariant
      del: lowers_below_count.simps sets_fraction.simps)

lemma foldl_apply_op_invariant:
  "capacity_invariant s \<Longrightarrow> no_fraction ops \<Longrightarrow> no_lowering s ops \<Longrightarrow>
   capacity_invariant (foldl apply_op s ops)"
  by (induction ops arbitrary: s)
    (simp_all add: apply_op_invariant no_fraction_def
      del: lowers_below_count.simps sets_fraction.simps)

text \<open>
  C6 (amended). Start from a store whose rooms are within capacity with a whole
  \<open>maxParticipants\<close>. Every sequence of create, join, leave and settings-update
  operations in which every \<open>maxParticipants\<close> asked for is a whole number and no update
  asks for one below the room's number of participants keeps
  \<open>participants.length \<le> settings.maxParticipants\<close> in every room of the store; adding a
  participant to a full room fails and leaves the room as it was, and both join handlers
  answer 'Room is full' without writing.
\<close>

theorem capacity_kept_unless_update_lowers:
  assumes "capacity_invariant s" and "no_fraction ops" and "no_lowering s ops"
  shows "all_within_capacity (foldl apply_op s ops) \<and>
         (isFull r \<longrightarrow> addParticipant now u r = (False, r)) \<and>
         (rooms s rid = Some r \<and> isFull r \<longrightarrow>
            room_join now rid u uname pw s = (Failed RoomIsFull, s) \<and>
            rest_join now rid u pw s = (Failed RoomIsFull, s))"
  using assms
  by (simp add: foldl_apply_op_invariant capacity_invariant_within addParticipant_def
      room_join_def rest_join_def)

text \<open>
  C6, at a full room of three: the host leaves, user 2 joins a second time and is entered
  again, the new host confirms the maximum of three, and a fourth user's join is turned
  away; also, a join of the full room fails.
\<close>

theorem capacity_kept_unless_update_lowers_witness:
  "let r = example_room Waiting None
             [player 1 0 False None, player 2 5 False None, player 3 9 False None];
       s = example_store r
   in all_within_capacity
        (foldl apply_op s
           [Leave 20 ''R1'' 1 ''alice'',
            Join 25 ''R1'' 2 ''bob'' None,
            Update False ''R1'' 2 (no_changes\<lparr>in_maxParticipants := Some 3\<rparr>),
            Join 30 ''R1'' 4 ''dave'' None]) \<and>
      addParticipant 10 4 r = (False, r) \<and>
      room_join 10 ''R1'' 4 ''dave'' None s = (Failed RoomIsFull, s)"
proof -
  let ?r = "example_room Waiting None
             [player 1 0 False None, player 2 5 False None, player 3 9 False None]"
  let ?ops = "[Leave 20 ''R1'' 1 ''alice'',
            Join 25 ''R1'' 2 ''bob'' None,
            Update False ''R1'' 2 (no_changes\<lparr>in_maxParticipants := Some 3\<rparr>),
            Join 30 ''R1'' 4 ''dave'' None]"
  have h: "capacity_invariant (example_store ?r)"
    by (auto simp: capacity_invariant_def example_defs within_capacity_def split: if_splits)
  have f: "no_fraction ?ops"
    by (simp add: no_fraction_def no_changes_def)
  have n: "no_lowering (example_store ?r) ?ops"
    by (simp add: example_defs room_leave_def room_join_def isParticipant_def isFull_def
        removeParticipant_def push_participant_def populated_lookup_def
        addChatMessage_def transfer_host_def isHost_def save_room_def validSettings_def
        languages_def Let_def)
  from capacity_kept_unless_update_lowers [OF h f n,
      where r = ?r and now = 10 and u = 4 and rid = "''R1''" and uname = "''dave''" and pw = None]
  show ?thesis
    by (simp add: example_defs isFull_def Let_def)
qed

text \<open>
  C6 (counterexample). First, the host of a waiting room with three participants and
  \<open>maxParticipants = 3\<close> sets \<open>maxParticipants\<close> to 2: the schema accepts the value, the
  handler does not compare it with the number of participants, and the stored room has
  three participants for a maximum of two. Second, with no settings update at all: a
  room is created through the socket handler with \<open>maxParticipants = 2.5\<close>, which the
  schema accepts; with two participants it is not full, so a third one joins, and three
  participants exceed 2.5.
\<close>

theorem capacity_exceeded_by_update_or_fraction:
  "let s = example_store (example_room Waiting None
             [player 1 0 False None, player 2 5 False None, player 3 9 False None]);
       upd = update_settings False ''R1'' 1 (no_changes\<lparr>in_maxParticipants := Some 2\<rparr>) s;
       ops = [Create 0 ''R2'' ''trio'' 1 (no_changes\<lparr>in_maxParticipants := Some (5 / 2)\<rparr>) False None,
              Join 5 ''R2'' 2 ''bob'' None, Join 9 ''R2'' 3 ''carol'' None];
       t = foldl apply_op lobby ops
   in all_within_capacity s \<and> fst upd = Done \<and>
      map_option (\<lambda>r. (length (participants r), maxParticipants (settings r)))
        (rooms (snd upd) ''R1'') = Some (3, 2) \<and>
      \<not> all_within_capacity (snd upd) \<and>
      all_within_capacity lobby \<and> no_lowering lobby ops \<and>
      map_option (\<lambda>r. (length (participants r), maxParticipants (settings r)))
        (rooms t ''R2'') = Some (3, 5 / 2) \<and>
      \<not> all_within_capacity t"
proof -
  let ?s = "example_store (example_room Waiting None
             [player 1 0 False None, player 2 5 False None, player 3 9 False None])"
  let ?upd = "update_settings False ''R1'' 1 (no_changes\<lparr>in_maxParticipants := Some 2\<rparr>) ?s"
  let ?ops = "[Create 0 ''R2'' ''trio'' 1 (no_changes\<lparr>in_maxParticipants := Some (5 / 2)\<rparr>) False None,
              Join 5 ''R2'' 2 ''bob'' None, Join 9 ''R2'' 3 ''carol'' None]"
  let ?t = "foldl apply_op lobby ?ops"
  have h: "all_within_capacity ?s"
    by (auto simp: all_within_capacity_def example_defs within_capacity_def split: if_splits)
  have u: "fst ?upd = Done"
    by (simp add: update_settings_def example_defs isHost_def apply_settings_def save_room_def
        validSettings_def languages_def)
  have v: "map_option (\<lambda>r. (length (participants r), maxParticipants (settings r)))
        (rooms (snd ?upd) ''R1'') = Some (3, 2)"
    by (simp add: update_settings_def example_defs isHost_def apply_settings_def save_room_def
        validSettings_def languages_def)
  then obtain r where r: "rooms (snd ?upd) ''R1'' = Some r" "length (participants r) = 3"
      "maxParticipants (settings r) = 2"
    by auto
  have nu: "\<not> all_within_capacity (snd ?upd)"
  proof
    assume "all_within_capacity (snd ?upd)"
    then have "within_capacity r" using r(1) by (rule room_in_capacity)
    with r(2,3) show False by (simp add: within_capacity_def)
  qed
  have l: "all_within_capacity lobby"
    by (simp add: all_within_capacity_def lobby_def)
  have n: "no_lowering lobby ?ops"
    by simp
  have w: "map_option (\<lambda>r. (length (participants r), maxParticipants (settings r)))
        (rooms ?t ''R2'') = Some (3, 5 / 2)"
    by (simp add: example_defs room_create_def room_join_def new_room_def or_rat_def or_int_def
        or_string_def addParticipant_def push_participant_def isFull_def isParticipant_def
        populated_lookup_def addChatMessage_def save_room_def validSettings_def languages_def
        Let_def)
  then obtain q where q: "rooms ?t ''R2'' = Some q" "length (participants q) = 3"
      "maxParticipants (settings q) = 5 / 2"
    by auto
  have nt: "\<not> all_within_capacity ?t"
  proof
    assume "all_within_capacity ?t"
    then have "within_capacity q" using q(1) by (rule room_in_capacity)
    with q(2,3) show False by (simp add: within_capacity_def)
  qed
  from h u v nu l n w nt show ?thesis by (simp add: Let_def)
qed

text \<open>
  A user who is in the room joins again: neither join handler notices, and the user is in
  the participants array twice.
\<close>

lemma join_admits_a_second_entry:
  "let s = example_store (example_room Waiting None
             [player 1 0 False None, player 2 5 False None])
   in fst (room_join 20 ''R1'' 2 ''bob'' None s) = Done \<and>
      map_option (\<lambda>r. map user (participants r))
        (rooms (snd (room_join 20 ''R1'' 2 ''bob'' None s)) ''R1'') = Some [1, 2, 2] \<and>
      fst (rest_join 20 ''R1'' 2 None s) = Done \<and>
      map_option (\<lambda>r. map user (participants r))
        (rooms (snd (rest_join 20 ''R1'' 2 None s)) ''R1'') = Some [1, 2, 2]"
  by (simp add: example_defs room_join_def rest_join_def isFull_def populated_lookup_def
      push_participant_def addChatMessage_def save_room_def validSettings_def languages_def
      Let_def)

subsection \<open>Readiness\<close>

text \<open>
  A ready-toggle changes nothing and arms nothing, whoever sends it and whatever the room:
  it moves no room to \<open>ready\<close>, with or without a quorum, from \<open>waiting\<close> or from any
  other status.
\<close>

lemma toggle_ready_changes_nothing:
  "snd (toggle_ready now rid uid uname s) = (s, False)"
  by (simp add: toggle_ready_def split: option.splits lookup.splits)


subsection \<open>Submissions and the time limit\<close>




subsection \<open>Settlement\<close>

lemma endBattle_not_in_progress:
  "rooms s rid = Some r \<Longrightarrow> status r \<noteq> InProgress \<Longrightarrow> endBattle now rid s = (s, None)"
  by (simp add: endBattle_def)

lemma endBattle_completes:
  assumes "rooms s rid = Some r" "status r = InProgress" "startedAt (battle r) = Some st"
    "problem r = Some pid" "validSettings (settings r)"
    "list_all (\<lambda>p. users s (user p) \<noteq> None) (participants r)"
    "(rid, now) \<notin> set (map matchId (matches s))"
  shows "rooms (fst (endBattle now rid s)) rid =
           Some (room_endBattle now (map (final_result now r) (participants r)) r)"
    and "length (matches (fst (endBattle now rid s))) = length (matches s) + 1"
  using assms
  by (simp_all add: endBattle_def Let_def save_room_def save_match_def room_endBattle_def
      split: prod.splits)

text \<open>
  C2. A room in progress (started, with its problem and its participants' user documents,
  and no match yet under the id of this invocation) is ended twice, at instants \<open>t1\<close>
  and \<open>t2\<close>: the first invocation adds exactly one match, the second finds the room
  completed and returns the store unchanged, with no second match and no broadcast.
\<close>

theorem endBattle_twice_one_match:
  assumes "rooms s rid = Some r" "status r = InProgress" "startedAt (battle r) = Some st"
    "problem r = Some pid" "validSettings (settings r)"
    "list_all (\<lambda>p. users s (user p) \<noteq> None) (participants r)"
    "(rid, t1) \<notin> set (map matchId (matches s))"
  shows "length (matches (fst (endBattle t1 rid s))) = length (matches s) + 1 \<and>
         map_option status (rooms (fst (endBattle t1 rid s)) rid) = Some Completed \<and>
         endBattle t2 rid (fst (endBattle t1 rid s)) = (fst (endBattle t1 rid s), None)"
proof -
  let ?s1 = "fst (endBattle t1 rid s)"
  let ?r1 = "room_endBattle t1 (map (final_result t1 r) (participants r)) r"
  have r1: "rooms ?s1 rid = Some ?r1"
    by (rule endBattle_completes(1)[OF assms])
  have st: "status ?r1 = Completed"
    by (simp add: room_endBattle_def)
  then have "status ?r1 \<noteq> InProgress" by simp
  with r1 have "endBattle t2 rid ?s1 = (?s1, None)"
    by (rule endBattle_not_in_progress)
  with endBattle_completes(2)[OF assms] r1 st show ?thesis by simp
qed

theorem endBattle_twice_one_match_witness:
  "let s = example_store (example_room InProgress (Some 0)
             [player 1 0 True (submitted 1000 tests60), player 2 5 True (submitted 2000 tests80)])
   in length (matches (fst (endBattle 200000 ''R1'' s))) = 1 \<and>
      endBattle 200500 ''R1'' (fst (endBattle 200000 ''R1'' s))
        = (fst (endBattle 200000 ''R1'' s), None)"
proof -
  let ?r = "example_room InProgress (Some 0)
             [player 1 0 True (submitted 1000 tests60), player 2 5 True (submitted 2000 tests80)]"
  have "rooms (example_store ?r) ''R1'' = Some ?r" "status ?r = InProgress"
    "startedAt (battle ?r) = Some 0" "problem ?r = Some 7" "validSettings (settings ?r)"
    "list_all (\<lambda>p. users (example_store ?r) (user p) \<noteq> None) (participants ?r)"
    "(''R1'', 200000) \<notin> set (map matchId (matches (example_store ?r)))"
    by (simp_all add: example_store_def example_room_def settings_of_def player_def
        validSettings_def languages_def)
  from endBattle_twice_one_match [OF this, of 200500] show ?thesis
    by (simp add: Let_def example_store_def)
qed

subsection \<open>Grace timers and the time limit\<close>

text \<open>
  C3 (amended). Reaching the time limit neither ends a battle nor pre-empts a pending
  grace timer. For a room in progress with a grace timer pending for instant \<open>f\<close>: as long
  as the clock is before \<open>f\<close>, letting time pass changes nothing, whatever the time
  limit; when the clock reaches \<open>f\<close> the timer ends the battle, with \<open>endedAt = f\<close>. A
  submission arms a timer for ten seconds after its scoring finished, or none.
\<close>

theorem grace_timer_ends_battle_at_its_own_instant:
  assumes "rooms s rid = Some r" "status r = InProgress" "startedAt (battle r) = Some st"
    "problem r = Some pid" "validSettings (settings r)"
    "list_all (\<lambda>p. users s (user p) \<noteq> None) (participants r)"
    "(rid, f) \<notin> set (map matchId (matches s))"
  shows "(t < f \<longrightarrow> advance t s ((f, rid) # ts) = (s, (f, rid) # ts)) \<and>
         (f \<le> t \<longrightarrow>
            map_option (\<lambda>r'. (status r', endedAt (battle r')))
              (rooms (fst (advance t s [(f, rid)])) rid) = Some (Completed, Some f)) \<and>
         snd (snd (battle_submit now later rid uid src lang oracle s))
           \<in> {None, Some (later + 10000)}"
proof -
  have "rooms (fst (endBattle f rid s)) rid =
          Some (room_endBattle f (map (final_result f r) (participants r)) r)"
    by (rule endBattle_completes(1)[OF assms])
  then have "f \<le> t \<longrightarrow>
            map_option (\<lambda>r'. (status r', endedAt (battle r')))
              (rooms (fst (advance t s [(f, rid)])) rid) = Some (Completed, Some f)"
    by (simp add: room_endBattle_def)
  moreover have "snd (snd (battle_submit now later rid uid src lang oracle s))
           \<in> {None, Some (later + 10000)}"
    by (simp add: battle_submit_def Let_def split: option.splits)
  ultimately show ?thesis by simp
qed

theorem grace_timer_ends_battle_at_its_own_instant_witness:
  "let s = example_store (example_room InProgress (Some 0)
             [player 1 0 True (submitted 296000 tests100), player 2 5 True (submitted 2000 tests80)])
   in advance 300000 s [(306000, ''R1'')] = (s, [(306000, ''R1'')]) \<and>
      map_option (\<lambda>r'. (status r', endedAt (battle r')))
        (rooms (fst (advance 306000 s [(306000, ''R1'')])) ''R1'') = Some (Completed, Some 306000)"
proof -
  let ?r = "example_room InProgress (Some 0)
             [player 1 0 True (submitted 296000 tests100), player 2 5 True (submitted 2000 tests80)]"
  have "rooms (example_store ?r) ''R1'' = Some ?r" "status ?r = InProgress"
    "startedAt (battle ?r) = Some 0" "problem ?r = Some 7" "validSettings (settings ?r)"
    "list_all (\<lambda>p. users (example_store ?r) (user p) \<noteq> None) (participants ?r)"
    "(''R1'', 306000) \<notin> set (map matchId (matches (example_store ?r)))"
    by (simp_all add: example_store_def example_room_def settings_of_def player_def
        validSettings_def languages_def)
  from grace_timer_ends_battle_at_its_own_instant [OF this, of 300000 "[]"]
    grace_timer_ends_battle_at_its_own_instant [OF this, of 306000 "[]"]
  show ?thesis
    by (simp add: Let_def)
qed

text \<open>
  C3 (counterexample). The time limit is 5 minutes, the battle started at instant 0, so
  the limit is reached at 300000. A submission checked at 295000 and scored 100 at 296000
  arms the grace timer for 306000. When the clock reaches the time limit the room is
  still in progress and the timer still pending; the battle ends when the timer fires,
  at 306000, with a duration of 306 seconds.
\<close>

theorem time_limit_does_not_end_battle:
  "let s0 = example_store (example_room InProgress (Some 0)
              [player 1 0 True (submitted 1000 tests60), player 2 5 True (submitted 2000 tests80)]);
       sys1 = submit_system 295000 296000 ''R1'' 1 ''fix'' ''python'' (Some tests100) (s0, []);
       at_limit = advance 300000 (fst sys1) (snd sys1);
       at_timer = advance 306000 (fst sys1) (snd sys1)
   in timeLimit (settings_of 3 5) * 60000 = 300000 \<and>
      snd sys1 = [(306000, ''R1'')] \<and>
      map_option status (rooms (fst at_limit) ''R1'') = Some InProgress \<and>
      snd at_limit = [(306000, ''R1'')] \<and>
      map_option (\<lambda>r. (status r, endedAt (battle r), duration (battle r)))
        (rooms (fst at_timer) ''R1'') = Some (Completed, Some 306000, Some 306)"
  by (simp add: example_defs settle_defs tests_facts submit_system_def battle_submit_def
      isParticipant_def timeIsUp_def atLeastOneMinute_def Let_def)

subsection \<open>Ranks and winner\<close>

lemma findIndex_distinct:
  "distinct (map f xs) \<Longrightarrow> i < length xs \<Longrightarrow> findIndex (\<lambda>y. f y = f (xs ! i)) xs = int i"
proof (induction xs arbitrary: i)
  case Nil
  then show ?case by simp
next
  case (Cons x xs)
  show ?case
  proof (cases i)
    case 0
    then show ?thesis by simp
  next
    case (Suc j)
    with Cons.prems have j: "j < length xs" and d: "distinct (map f xs)" by simp_all
    from Cons.prems have "f x \<notin> f ` set xs" by simp
    with j have "f x \<noteq> f (xs ! j)" by (metis imageI nth_mem)
    with Cons.IH [OF d j] Suc show ?thesis by simp
  qed
qed

text \<open>
  The ranks \<open>endBattle\<close> records in the match are the positions in the participants array,
  whatever the scores.
\<close>

lemma match_ranks_are_positions:
  assumes "distinct (map res_user rs)"
  shows "map mp_rank (match_participants rs) = map (\<lambda>i. int i + 1) [0..<length rs]"
proof (rule nth_equalityI)
  show "length (map mp_rank (match_participants rs)) = length (map (\<lambda>i. int i + 1) [0..<length rs])"
    by (simp add: match_participants_def)
next
  fix i assume "i < length (map mp_rank (match_participants rs))"
  then have i: "i < length rs" by (simp add: match_participants_def)
  with findIndex_distinct [OF assms i]
  show "map mp_rank (match_participants rs) ! i = map (\<lambda>i. int i + 1) [0..<length rs] ! i"
    by (simp add: match_participants_def)
qed

text \<open>
  \<open>calculateRankings\<close>, the method of the match that \<open>endBattle\<close> never calls, on the
  specification's example: scores 80, 80, 60 and times 120, 90, 200 seconds give the ranks
  2, 1, 3 and the winner the second participant.
\<close>

lemma calculateRankings_spec_example:
  "let m = calculateRankings (example_match
             [contestant 1 80 120 1, contestant 2 80 90 1, contestant 3 60 200 1])
   in map (\<lambda>p. (mp_user p, mp_rank p)) (m_participants m) = [(1, 2), (2, 1), (3, 3)] \<and>
      mb_winner (m_battle m) = Some 2"
  by (simp add: calculateRankings_def example_match_def contestant_def sort_cmp_def
      compareRank_def Let_def upt_rec)

text \<open>
  C1 (the code at the failing input). A battle between user 1, whose last submission
  scored 60, and user 2, whose last submission scored 80, is ended at 200 seconds. Both
  get the same time spent (the age of the battle), the match records rank 1 for user 1
  and rank 2 for user 2, and \<open>battle:ended\<close> broadcasts the same ranks: the order of the
  participants array, not the descending order of the scores.
\<close>

theorem endBattle_ranks_follow_array_order:
  "let s = example_store (example_room InProgress (Some 0)
             [player 1 0 True (submitted 1000 tests60), player 2 5 True (submitted 2000 tests80)]);
       ended = endBattle 200000 ''R1'' s
   in map (\<lambda>m. map (\<lambda>p. (mp_user p, mp_finalScore p, mp_timeSpent p, mp_rank p)) (m_participants m))
          (matches (fst ended)) = [[(1, 60, 200, 1), (2, 80, 200, 2)]] \<and>
      map_option (\<lambda>e. map (\<lambda>(r, k). (res_user r, finalScore r, timeSpent r, k)) (ev_results e))
          (snd ended) = Some [(1, 60, 200, 1), (2, 80, 200, 2)]"
  by (simp add: example_defs settle_defs tests_facts Let_def)

lemma foldl_pick_winner_ties:
  "list_all (\<lambda>x. finalScore x = finalScore r) rest \<Longrightarrow> foldl pick_winner r rest = last (r # rest)"
proof (induction rest arbitrary: r)
  case Nil
  then show ?case by simp
next
  case (Cons x xs)
  then have "pick_winner r x = x" "list_all (\<lambda>y. finalScore y = finalScore x) xs"
    by (simp_all add: pick_winner_def)
  with Cons.IH [of x] show ?case by simp
qed

text \<open>When every result has the same score, the winner is the last entry of the array.\<close>

lemma reduce_winner_ties:
  "rs \<noteq> [] \<Longrightarrow> list_all (\<lambda>x. finalScore x = c) rs \<Longrightarrow> reduce_winner rs = Some (res_user (last rs))"
  by (cases rs) (simp_all add: reduce_winner_def foldl_pick_winner_ties)

text \<open>
  Every participant gets the same time spent and the submission count 1, so participants
  who share a score tie on all three keys of the stated order.
\<close>

lemma final_result_same_keys:
  "timeSpent (final_result now r p) = timeSpent (final_result now r q) \<and>
   submissionCount (final_result now r p) = 1"
  by (simp add: final_result_def)

text \<open>
  \<open>calculateRankings\<close> on two participants who tie on all three keys: the stable sort
  keeps the array order, so rank 1 and the winner are the first entry.
\<close>

lemma calculateRankings_tie_example:
  "let m = calculateRankings (example_match [contestant 1 80 200 1, contestant 2 80 200 1])
   in map (\<lambda>p. (mp_user p, mp_rank p)) (m_participants m) = [(1, 1), (2, 2)] \<and>
      mb_winner (m_battle m) = Some 1"
  by (simp add: calculateRankings_def example_match_def contestant_def sort_cmp_def
      compareRank_def Let_def upt_rec)

text \<open>
  C4 (the code at the failing input). Users 1 and 2 both score 80, with the same time
  spent and one submission each: the recorded winner is user 2, the later entry of the
  participants array, and with the two entries swapped it is user 1. The match stored
  for the first order names user 2 the winner while giving rank 1 to user 1 and rank 2
  to user 2.
\<close>

theorem endBattle_winner_follows_array_order:
  "let a = player 1 0 True (submitted 1000 tests80);
       b = player 2 5 True (submitted 2000 tests80);
       winner_of = (\<lambda>ps. map_option (\<lambda>r. (winner (battle r),
          map (\<lambda>x. (res_user x, finalScore x, timeSpent x, submissionCount x)) (results (battle r))))
          (rooms (fst (endBattle 200000 ''R1''
             (example_store (example_room InProgress (Some 0) ps)))) ''R1''))
   in winner_of [a, b] = Some (Some 2, [(1, 80, 200, 1), (2, 80, 200, 1)]) \<and>
      winner_of [b, a] = Some (Some 1, [(2, 80, 200, 1), (1, 80, 200, 1)]) \<and>
      map (\<lambda>m. (mb_winner (m_battle m), map (\<lambda>p. (mp_user p, mp_rank p)) (m_participants m)))
        (matches (fst (endBattle 200000 ''R1''
           (example_store (example_room InProgress (Some 0) [a, b])))))
        = [(Some 2, [(1, 1), (2, 2)])]"
  by (simp add: example_defs settle_defs tests_facts Let_def)

subsection \<open>Ratings\<close>

text \<open>
  The loop settles the user of each participant entry once, in array order: a user with
  \<open>k\<close> entries is settled \<open>k\<close> times.
\<close>

lemma update_statistics_entries:
  assumes "list_all (\<lambda>p. us (user p) \<noteq> None) ps"
    and "list_all (\<lambda>p. find (\<lambda>res. res_user res = user p) rs \<noteq> None) ps"
    and "list_all (\<lambda>res. timeSpent res = T) rs"
  shows "update_statistics r rs ps us =
           (True, \<lambda>u. map_option
              ((settle_once (winner (battle r)) T (difficulty (settings r)) u ^^
                  length (filter (\<lambda>q. user q = u) ps))) (us u))"
proof -
  define F where "F = settle_once (winner (battle r)) T (difficulty (settings r))"
  have "update_statistics r rs ps us =
          (True, \<lambda>u. map_option (F u ^^ length (filter (\<lambda>q. user q = u) ps)) (us u))"
    using assms(1,2)
  proof (induction ps arbitrary: us)
    case Nil
    show ?case by (simp add: fun_eq_iff option.map_ident)
  next
    case (Cons p ps)
    from Cons.prems(1) obtain d where d: "us (user p) = Some d" by auto
    from Cons.prems(2) obtain res where res: "find (\<lambda>res. res_user res = user p) rs = Some res"
      by auto
    then have "res \<in> set rs" by (auto simp: find_Some_iff)
    with assms(3) have T: "timeSpent res = T" by (simp add: list_all_iff)
    let ?us' = "us(user p \<mapsto> F (user p) d)"
    have d1: "list_all (\<lambda>q. ?us' (user q) \<noteq> None) ps"
      using Cons.prems(1) by (simp add: list_all_iff)
    from Cons.prems(2)
    have d2: "list_all (\<lambda>p. find (\<lambda>res. res_user res = user p) rs \<noteq> None) ps" by simp
    have IH: "update_statistics r rs ps ?us' =
           (True, \<lambda>u. map_option (F u ^^ length (filter (\<lambda>q. user q = u) ps)) (?us' u))"
      by (rule Cons.IH [OF d1 d2])
    have step: "update_statistics r rs (p # ps) us = update_statistics r rs ps ?us'"
      using d res T by (simp add: F_def settle_once_def)
    have "(\<lambda>u. map_option (F u ^^ length (filter (\<lambda>q. user q = u) ps)) (?us' u)) =
          (\<lambda>u. map_option (F u ^^ length (filter (\<lambda>q. user q = u) (p # ps))) (us u))"
    proof (rule ext)
      fix u
      show "map_option (F u ^^ length (filter (\<lambda>q. user q = u) ps)) (?us' u) =
            map_option (F u ^^ length (filter (\<lambda>q. user q = u) (p # ps))) (us u)"
      proof (cases "u = user p")
        case True
        with d show ?thesis by (simp add: funpow_swap1)
      next
        case False
        then show ?thesis by auto
      qed
    qed
    with step IH show ?case by simp
  qed
  then show ?thesis unfolding F_def .
qed

lemma find_final_result:
  "p \<in> set ps \<Longrightarrow> find (\<lambda>res. res_user res = user p) (map (final_result now r) ps) \<noteq> None"
  by (auto simp: find_None_iff final_result_def)

lemma endBattle_users:
  assumes "rooms s rid = Some r" "status r = InProgress" "startedAt (battle r) = Some st"
    "problem r = Some pid" "validSettings (settings r)"
    "list_all (\<lambda>p. users s (user p) \<noteq> None) (participants r)"
    "(rid, now) \<notin> set (map matchId (matches s))"
    "participants r \<noteq> []"
  shows "users (fst (endBattle now rid s)) =
           (\<lambda>u. map_option
              ((settle_once (reduce_winner (map (final_result now r) (participants r)))
                  (round_div (now - st) 1000) (difficulty (settings r)) u ^^
                length (filter (\<lambda>q. user q = u) (participants r)))) (users s u))"
proof -
  let ?rs = "map (final_result now r) (participants r)"
  let ?r' = "room_endBattle now ?rs r"
  have a: "list_all (\<lambda>p. find (\<lambda>res. res_user res = user p) ?rs \<noteq> None) (participants r)"
    unfolding list_all_iff using find_final_result by blast
  have b: "list_all (\<lambda>res. timeSpent res = round_div (now - st) 1000) ?rs"
    using assms(3) by (simp add: list_all_iff final_result_def)
  have w: "winner (battle ?r') = reduce_winner ?rs" "difficulty (settings ?r') = difficulty (settings r)"
    "participants ?r' = participants r"
    using assms(8) by (simp_all add: room_endBattle_def)
  have props: "problem ?r' = problem r" "settings ?r' = settings r"
    "endedAt (battle ?r') = Some now" "duration (battle ?r') = Some (round_div (now - st) 1000)"
    using assms(3) by (simp_all add: room_endBattle_def)
  have "update_statistics ?r' ?rs (participants r) (users s) =
          (True, \<lambda>u. map_option
              ((settle_once (reduce_winner ?rs) (round_div (now - st) 1000)
                  (difficulty (settings r)) u ^^
                length (filter (\<lambda>q. user q = u) (participants r)))) (users s u))"
    using update_statistics_entries [OF assms(6) a b, of ?r'] unfolding w(1,2) .
  with assms(1-7) props w(3) show ?thesis
    by (simp add: endBattle_def Let_def save_room_def save_match_def)
qed

text \<open>A user settled \<open>k\<close> times as the winner, or as another participant.\<close>

lemma settle_winner:
  "rating ((settle_once (Some u) t dif u ^^ k) d) = rating d + 25 * int k \<and>
   draws ((settle_once (Some u) t dif u ^^ k) d) = draws d"
  by (induction k) (simp_all add: settle_once_def updateStats_def user_save_def Let_def)

lemma settle_loser:
  assumes "w \<noteq> Some u"
  shows "rating ((settle_once w t dif u ^^ Suc k) d) = max 800 (rating d - 20 * int (Suc k)) \<and>
         draws ((settle_once w t dif u ^^ k) d) = draws d"
  using assms
  by (induction k) (auto simp: settle_once_def updateStats_def user_save_def Let_def)

lemma settle_rank:
  "rank ((settle_once w t dif u ^^ Suc k) d) = rank_for (rating ((settle_once w t dif u ^^ Suc k) d))"
  by (simp add: settle_once_def user_save_def)

text \<open>
  C8 (amended). \<open>updateStats\<close> adds 25 for a win, sets \<open>max(800, rating - 20)\<close> for a loss
  and adds 5 for a draw, and every save of a user recomputes the tier: Bronze below 1300,
  Silver below 1500, Gold below 1700, Platinum below 1900, Diamond below 2100, Master from
  2100. The settlement of a battle passes only 'win', to the recorded winner, and 'loss',
  to every other participant, once for each entry the user has in the participants array
  (the join handlers enter a user who joins again a second time). After the match is
  stored, a participant with \<open>k\<close> entries has the old rating plus \<open>25 k\<close> as the winner and
  \<open>max(800, rating - 20 k)\<close> otherwise (for one entry: plus 25, or \<open>max(800, rating - 20)\<close>);
  the draw count is unchanged and the tier is that of the new rating.
\<close>

theorem settlement_rating_win_or_loss:
  assumes "rooms s rid = Some r" "status r = InProgress" "startedAt (battle r) = Some st"
    "problem r = Some pid" "validSettings (settings r)"
    "list_all (\<lambda>p. users s (user p) \<noteq> None) (participants r)"
    "(rid, now) \<notin> set (map matchId (matches s))"
    "p \<in> set (participants r)" "users s (user p) = Some d"
  shows "(\<exists>d'. users (fst (endBattle now rid s)) (user p) = Some d' \<and>
            rating d' =
              (if reduce_winner (map (final_result now r) (participants r)) = Some (user p)
               then rating d + 25 * int (length (filter (\<lambda>q. user q = user p) (participants r)))
               else max 800 (rating d
                      - 20 * int (length (filter (\<lambda>q. user q = user p) (participants r))))) \<and>
            draws d' = draws d \<and> rank d' = rank_for (rating d')) \<and>
         (distinct (map user (participants r)) \<longrightarrow>
            length (filter (\<lambda>q. user q = user p) (participants r)) = 1) \<and>
         length (matches (fst (endBattle now rid s))) = length (matches s) + 1 \<and>
         rating (updateStats Win t dif d) = rating d + 25 \<and>
         rating (updateStats Loss t dif d) = max 800 (rating d - 20) \<and>
         rating (updateStats Draw t dif d) = rating d + 5 \<and>
         rank (user_save d) = rank_for (rating d) \<and>
         rank_for x =
           (if x < 1300 then Bronze else if x < 1500 then Silver else if x < 1700 then Gold
            else if x < 1900 then Platinum else if x < 2100 then Diamond else Master)"
proof -
  let ?w = "reduce_winner (map (final_result now r) (participants r))"
  let ?T = "round_div (now - st) 1000"
  let ?n = "length (filter (\<lambda>q. user q = user p) (participants r))"
  from assms(8) have ne: "participants r \<noteq> []" by auto
  from assms(8) have "filter (\<lambda>q. user q = user p) (participants r) \<noteq> []"
    by (auto simp: filter_empty_conv)
  then obtain k where k: "?n = Suc k" by (cases ?n) auto
  let ?d' = "(settle_once ?w ?T (difficulty (settings r)) (user p) ^^ Suc k) d"
  have u: "users (fst (endBattle now rid s)) (user p) = Some ?d'"
    using assms(9) k by (simp add: endBattle_users [OF assms(1-7) ne])
  have r: "rating ?d' = (if ?w = Some (user p) then rating d + 25 * int ?n
                         else max 800 (rating d - 20 * int ?n))"
  proof (cases "?w = Some (user p)")
    case True
    then show ?thesis
      using settle_winner [where u = "user p" and t = ?T and dif = "difficulty (settings r)"
          and k = "Suc k" and d = d] k
      by simp
  next
    case False
    then show ?thesis
      using settle_loser [OF False, where t = ?T and dif = "difficulty (settings r)"
          and k = k and d = d] k
      by simp
  qed
  have dr: "draws ?d' = draws d"
  proof (cases "?w = Some (user p)")
    case True
    then show ?thesis
      using settle_winner [where u = "user p" and t = ?T and dif = "difficulty (settings r)"
          and k = "Suc k" and d = d]
      by simp
  next
    case False
    then show ?thesis
      using settle_loser [OF False, where t = ?T and dif = "difficulty (settings r)"
          and k = "Suc k" and d = d]
      by simp
  qed
  have rk: "rank ?d' = rank_for (rating ?d')" by (rule settle_rank)
  have ex: "\<exists>d'. users (fst (endBattle now rid s)) (user p) = Some d' \<and>
            rating d' =
              (if ?w = Some (user p) then rating d + 25 * int ?n
               else max 800 (rating d - 20 * int ?n)) \<and>
            draws d' = draws d \<and> rank d' = rank_for (rating d')"
    using u r dr rk by blast
  have one: "distinct (map user (participants r)) \<longrightarrow> ?n = 1"
  proof
    assume "distinct (map user (participants r))"
    then have "?n \<le> 1" by (rule at_most_one_entry)
    with k show "?n = 1" by simp
  qed
  have m: "length (matches (fst (endBattle now rid s))) = length (matches s) + 1"
    by (rule endBattle_completes(2)[OF assms(1-7)])
  have rest: "rating (updateStats Win t dif d) = rating d + 25 \<and>
         rating (updateStats Loss t dif d) = max 800 (rating d - 20) \<and>
         rating (updateStats Draw t dif d) = rating d + 5 \<and>
         rank (user_save d) = rank_for (rating d) \<and>
         rank_for x =
           (if x < 1300 then Bronze else if x < 1500 then Silver else if x < 1700 then Gold
            else if x < 1900 then Platinum else if x < 2100 then Diamond else Master)"
    by (simp add: updateStats_def user_save_def rank_for_def Let_def)
  from ex one m rest show ?thesis by blast
qed

theorem settlement_rating_win_or_loss_witness:
  "let s = example_store (example_room InProgress (Some 0)
             [player 1 0 True (submitted 1000 tests60), player 2 5 True (submitted 2000 tests80)]);
       s' = example_store (example_room InProgress (Some 0)
             [player 1 0 True (submitted 1000 tests60), player 2 5 True (submitted 2000 tests80),
              player 2 9 True None])
   in (\<exists>d'. users (fst (endBattle 200000 ''R1'' s)) 1 = Some d' \<and> rating d' = 1180 \<and>
             draws d' = 0 \<and> rank d' = Bronze) \<and>
      (\<exists>d'. users (fst (endBattle 200000 ''R1'' s)) 2 = Some d' \<and> rating d' = 1225 \<and>
             draws d' = 0 \<and> rank d' = Bronze) \<and>
      (\<exists>d'. users (fst (endBattle 200000 ''R1'' s')) 2 = Some d' \<and> rating d' = 1250 \<and>
             draws d' = 0 \<and> rank d' = Bronze)"
proof -
  let ?p1 = "player 1 0 True (submitted 1000 tests60)"
  let ?p2 = "player 2 5 True (submitted 2000 tests80)"
  let ?p3 = "player 2 9 True None"
  let ?r = "example_room InProgress (Some 0) [?p1, ?p2]"
  let ?r' = "example_room InProgress (Some 0) [?p1, ?p2, ?p3]"
  have h: "rooms (example_store ?r) ''R1'' = Some ?r" "status ?r = InProgress"
    "startedAt (battle ?r) = Some 0" "problem ?r = Some 7" "validSettings (settings ?r)"
    "list_all (\<lambda>p. users (example_store ?r) (user p) \<noteq> None) (participants ?r)"
    "(''R1'', 200000) \<notin> set (map matchId (matches (example_store ?r)))"
    by (simp_all add: example_store_def example_room_def settings_of_def player_def
        validSettings_def languages_def)
  have h': "rooms (example_store ?r') ''R1'' = Some ?r'" "status ?r' = InProgress"
    "startedAt (battle ?r') = Some 0" "problem ?r' = Some 7" "validSettings (settings ?r')"
    "list_all (\<lambda>p. users (example_store ?r') (user p) \<noteq> None) (participants ?r')"
    "(''R1'', 200000) \<notin> set (map matchId (matches (example_store ?r')))"
    by (simp_all add: example_store_def example_room_def settings_of_def player_def
        validSettings_def languages_def)
  have p1: "?p1 \<in> set (participants ?r)" "users (example_store ?r) (user ?p1) = Some fresh_user"
    and p2: "?p2 \<in> set (participants ?r)" "users (example_store ?r) (user ?p2) = Some fresh_user"
    and p2': "?p2 \<in> set (participants ?r')" "users (example_store ?r') (user ?p2) = Some fresh_user"
    by (simp_all add: example_store_def example_room_def player_def)
  have w: "reduce_winner (map (final_result 200000 ?r) (participants ?r)) = Some 2"
    "reduce_winner (map (final_result 200000 ?r') (participants ?r')) = Some 2"
    by (simp_all add: example_defs settle_defs tests_facts)
  from settlement_rating_win_or_loss [OF h p1, where t = 0 and dif = Easy and x = 0]
    settlement_rating_win_or_loss [OF h p2, where t = 0 and dif = Easy and x = 0]
    settlement_rating_win_or_loss [OF h' p2', where t = 0 and dif = Easy and x = 0] w
  show ?thesis
    by (auto simp: Let_def example_room_def player_def fresh_user_def rank_for_def)
qed

text \<open>
  C8 (counterexample). Two participants rated 1200 both finish with the top score 80.
  The settlement records no draw: user 2, the later entry, is the winner and goes to
  1225, user 1 takes a loss and goes to 1180; neither gets the 5 points of a draw.
\<close>

theorem equal_top_score_is_not_a_draw:
  "let s = example_store (example_room InProgress (Some 0)
             [player 1 0 True (submitted 1000 tests80), player 2 5 True (submitted 2000 tests80)]);
       after = users (fst (endBattle 200000 ''R1'' s))
   in map_option (\<lambda>d. (rating d, wins d, losses d, draws d)) (users s 1) = Some (1200, 0, 0, 0) \<and>
      map_option (\<lambda>d. (rating d, wins d, losses d, draws d)) (users s 2) = Some (1200, 0, 0, 0) \<and>
      map_option (\<lambda>d. (rating d, wins d, losses d, draws d)) (after 1) = Some (1180, 0, 1, 0) \<and>
      map_option (\<lambda>d. (rating d, wins d, losses d, draws d)) (after 2) = Some (1225, 1, 0, 0)"
  by (simp add: example_defs settle_defs tests_facts Let_def)

end
